theory Spec2Isabelle
  imports Complex_Main "HOL-Library.Monad_Syntax"
begin

section \<open>The software renderer of swrender.cpp\<close>

text \<open>
  The file \<^verbatim>\<open>src/swrender.cpp\<close> implements the SDL\_gpu renderer interface on top of
  SDL\_render. This theory embeds the parts of it that carry logic: the rectangle
  clipping of \<^verbatim>\<open>swrender_UpdateImage\<close> and \<^verbatim>\<open>swrender_UpdateImageBytes\<close>, the cached
  render target of \<^verbatim>\<open>setRenderTarget\<close>, and the creation and release of targets and
  images with their reference counts.

  Conventions of the embedding.
  \<^item> A C pointer is an \<open>addr option\<close>: \<open>None\<close> is \<^verbatim>\<open>NULL\<close>. Each struct type has its own
    store, a map from addresses to records; an address outside the store's domain is not
    allocated (never allocated, or released by \<^verbatim>\<open>SDL_free\<close>).
  \<^item> A function that dereferences a pointer returns an \<open>option\<close>: the outer \<open>None\<close> is
    undefined behaviour (a null or released pointer is dereferenced).
  \<^item> Calls into SDL and into the error sink of SDL\_gpu are recorded, in order, in the
    field \<open>calls\<close> of the state. What SDL answers (a new renderer, a new texture, a
    block from \<^verbatim>\<open>SDL_malloc\<close>) is an argument of the modelled function; the windows
    SDL knows, by id, are the field \<open>sdl_windows\<close>.
  \<^item> C \<^verbatim>\<open>int\<close> values are \<open>int\<close>s in the 32 bit range: additions, subtractions,
    negations and products wrap around (\<open>int_add\<close>, \<open>int_sub\<close>, \<open>int_neg\<close>,
    \<open>int_mul\<close>). \<^verbatim>\<open>Uint16\<close> fields are \<open>nat\<close>, with the truncation written out where
    the source casts. An offset added to a pointer is an \<open>int\<close>.
  \<^item> The \<^verbatim>\<open>float\<close> members of \<^verbatim>\<open>GPU_Rect\<close> are converted by \<^verbatim>\<open>(int)\<close> casts before any
    arithmetic; the rectangles are taken after that conversion, as \<open>SDL_Rect\<close>.
\<close>

subsection \<open>Rectangles and the clipping of the two update functions\<close>

record SDL_Rect =
  x :: int
  y :: int
  w :: int
  h :: int

text \<open>The initial rectangle: the caller's one, or the whole surface (or image).\<close>

definition rect_or_full :: "SDL_Rect option \<Rightarrow> int \<Rightarrow> int \<Rightarrow> SDL_Rect" where
  "rect_or_full r full_w full_h =
     (case r of
        Some r' \<Rightarrow> \<lparr>x = x r', y = y r', w = w r', h = h r'\<rparr>
      | None \<Rightarrow> \<lparr>x = 0, y = 0, w = full_w, h = full_h\<rparr>)"

text \<open>
  The arithmetic of C \<^verbatim>\<open>int\<close>. The result of an operation is brought back into the 32
  bit two's complement range, as the compiled code does; in C itself a signed overflow
  is undefined. A value already in the range is left as it is.
\<close>

definition int_wrap :: "int \<Rightarrow> int" where
  "int_wrap v = (v + 2147483648) mod 4294967296 - 2147483648"

definition int_add :: "int \<Rightarrow> int \<Rightarrow> int" where
  "int_add a b = int_wrap (a + b)"

definition int_sub :: "int \<Rightarrow> int \<Rightarrow> int" where
  "int_sub a b = int_wrap (a - b)"

definition int_neg :: "int \<Rightarrow> int" where
  "int_neg a = int_wrap (- a)"

definition int_mul :: "int \<Rightarrow> int \<Rightarrow> int" where
  "int_mul a b = int_wrap (a * b)"

text \<open>\<^verbatim>\<open>// clip src to source surface\<close>: the four \<^verbatim>\<open>if\<close> statements, in the source's order.\<close>

definition clip_src_to_surface :: "int \<Rightarrow> int \<Rightarrow> SDL_Rect \<times> SDL_Rect \<Rightarrow> SDL_Rect \<times> SDL_Rect" where
  "clip_src_to_surface surface_w surface_h sd =
     (let (src, dst) = sd;
          (src, dst) =
            (if x src < 0 then
               (let overhang = int_neg (x src) in
                  (src\<lparr>x := int_add (x src) overhang, w := int_sub (w src) overhang\<rparr>,
                   dst\<lparr>x := int_add (x dst) overhang, w := int_sub (w dst) overhang\<rparr>))
             else (src, dst));
          (src, dst) =
            (if y src < 0 then
               (let overhang = int_neg (y src) in
                  (src\<lparr>y := int_add (y src) overhang, h := int_sub (h src) overhang\<rparr>,
                   dst\<lparr>y := int_add (y dst) overhang, h := int_sub (h dst) overhang\<rparr>))
             else (src, dst));
          (src, dst) =
            (if int_add (x src) (w src) > surface_w then
               (let overhang = int_sub (int_add (x src) (w src)) surface_w in
                  (src\<lparr>w := int_sub (w src) overhang\<rparr>, dst\<lparr>w := int_sub (w dst) overhang\<rparr>))
             else (src, dst));
          (src, dst) =
            (if int_add (y src) (h src) > surface_h then
               (let overhang = int_sub (int_add (y src) (h src)) surface_h in
                  (src\<lparr>h := int_sub (h src) overhang\<rparr>, dst\<lparr>h := int_sub (h dst) overhang\<rparr>))
             else (src, dst))
      in (src, dst))"

text \<open>\<^verbatim>\<open>// clip dst to dest surface\<close>, the same four tests on the destination rectangle.\<close>

definition clip_dst_to_image :: "int \<Rightarrow> int \<Rightarrow> SDL_Rect \<times> SDL_Rect \<Rightarrow> SDL_Rect \<times> SDL_Rect" where
  "clip_dst_to_image image_w image_h sd =
     (let (src, dst) = sd;
          (src, dst) =
            (if x dst < 0 then
               (let overhang = int_neg (x dst) in
                  (src\<lparr>x := int_add (x src) overhang, w := int_sub (w src) overhang\<rparr>,
                   dst\<lparr>x := int_add (x dst) overhang, w := int_sub (w dst) overhang\<rparr>))
             else (src, dst));
          (src, dst) =
            (if y dst < 0 then
               (let overhang = int_neg (y dst) in
                  (src\<lparr>y := int_add (y src) overhang, h := int_sub (h src) overhang\<rparr>,
                   dst\<lparr>y := int_add (y dst) overhang, h := int_sub (h dst) overhang\<rparr>))
             else (src, dst));
          (src, dst) =
            (if int_add (x dst) (w dst) > image_w then
               (let overhang = int_sub (int_add (x dst) (w dst)) image_w in
                  (src\<lparr>w := int_sub (w src) overhang\<rparr>, dst\<lparr>w := int_sub (w dst) overhang\<rparr>))
             else (src, dst));
          (src, dst) =
            (if int_add (y dst) (h dst) > image_h then
               (let overhang = int_sub (int_add (y dst) (h dst)) image_h in
                  (src\<lparr>h := int_sub (h src) overhang\<rparr>, dst\<lparr>h := int_sub (h dst) overhang\<rparr>))
             else (src, dst))
      in (src, dst))"

text \<open>\<^verbatim>\<open>// clip dst against src\<close>: only the destination rectangle is assigned.\<close>

definition clip_dst_against_src :: "SDL_Rect \<times> SDL_Rect \<Rightarrow> SDL_Rect \<times> SDL_Rect" where
  "clip_dst_against_src sd =
     (let (src, dst) = sd;
          dst = (if w src < w dst then dst\<lparr>w := w src\<rparr> else dst);
          dst = (if h src < h dst then dst\<lparr>h := h src\<rparr> else dst)
      in (src, dst))"

text \<open>
  The clipping phase of \<^verbatim>\<open>swrender_UpdateImage\<close>: everything from the first statement
  to the comment \<^verbatim>\<open>// anything left?\<close>. The result is the pair \<open>(src, dst)\<close>.
\<close>

definition UpdateImage_clip ::
  "int \<Rightarrow> int \<Rightarrow> SDL_Rect option \<Rightarrow> int \<Rightarrow> int \<Rightarrow> SDL_Rect option \<Rightarrow> SDL_Rect \<times> SDL_Rect" where
  "UpdateImage_clip image_w image_h image_rect surface_w surface_h surface_rect =
     (let src = rect_or_full surface_rect surface_w surface_h;
          dst = rect_or_full image_rect image_w image_h
      in clip_dst_against_src
           (clip_dst_to_image image_w image_h
              (clip_src_to_surface surface_w surface_h (src, dst))))"

text \<open>
  The clipping phase of \<^verbatim>\<open>swrender_UpdateImageBytes\<close>. There is no source rectangle: the
  pointer \<^verbatim>\<open>bytes\<close> is advanced instead, and the result is the offset added to it
  together with \<open>dst\<close>.
\<close>

definition UpdateImageBytes_clip ::
  "int \<Rightarrow> int \<Rightarrow> int \<Rightarrow> SDL_Rect option \<Rightarrow> int \<Rightarrow> int \<times> SDL_Rect" where
  "UpdateImageBytes_clip image_w image_h bytes_per_pixel image_rect bytes_per_row =
     (let dst = rect_or_full image_rect image_w image_h;
          bytes = 0;
          (bytes, dst) =
            (if x dst < 0 then
               (let overhang = int_neg (x dst) in
                  (bytes + int_mul overhang bytes_per_pixel,
                   dst\<lparr>x := int_add (x dst) overhang, w := int_sub (w dst) overhang\<rparr>))
             else (bytes, dst));
          (bytes, dst) =
            (if y dst < 0 then
               (let overhang = int_neg (y dst) in
                  (bytes + int_mul overhang bytes_per_row,
                   dst\<lparr>y := int_add (y dst) overhang, h := int_sub (h dst) overhang\<rparr>))
             else (bytes, dst));
          dst =
            (if int_add (x dst) (w dst) > image_w then
               (let overhang = int_sub (int_add (x dst) (w dst)) image_w
                in dst\<lparr>w := int_sub (w dst) overhang\<rparr>)
             else dst);
          dst =
            (if int_add (y dst) (h dst) > image_h then
               (let overhang = int_sub (int_add (y dst) (h dst)) image_h
                in dst\<lparr>h := int_sub (h dst) overhang\<rparr>)
             else dst)
      in (bytes, dst))"

subsection \<open>The structs\<close>

type_synonym addr = nat

datatype GPU_ErrorEnum =
    GPU_ERROR_UNSUPPORTED_FUNCTION
  | GPU_ERROR_USER_ERROR
  | GPU_ERROR_BACKEND_ERROR

text \<open>
  \<^verbatim>\<open>GPU_FormatEnum\<close> is declared in a header of SDL\_gpu. The \<^verbatim>\<open>switch\<close> of
  \<^verbatim>\<open>swrender_CreateImage\<close> names two of its tags; every other tag goes to \<^verbatim>\<open>default\<close>
  and is \<open>GPU_FORMAT_other n\<close> here.
\<close>

datatype GPU_FormatEnum = GPU_FORMAT_RGB | GPU_FORMAT_RGBA | GPU_FORMAT_other nat

datatype SDL_PixelFormatEnum =
    SDL_PIXELFORMAT_RGB888
  | SDL_PIXELFORMAT_RGBA8888
  | SDL_PIXELFORMAT_other nat

datatype GPU_BlendPresetEnum = GPU_BLEND_NORMAL | GPU_BLEND_other nat

text \<open>The value that \<^verbatim>\<open>GPU_GetBlendModeFromPreset\<close> returns for a preset.\<close>

datatype GPU_BlendMode = GPU_GetBlendModeFromPreset GPU_BlendPresetEnum

datatype GPU_FilterEnum = GPU_FILTER_NEAREST | GPU_FILTER_LINEAR | GPU_FILTER_LINEAR_MIPMAP

record SW_CONTEXT_DATA =
  sdl_renderer :: "addr option"
  render_target :: "addr option"

record SW_IMAGE_DATA =
  idata_refcount :: int
  sdl_format :: SDL_PixelFormatEnum
  tex :: "addr option"

record GPU_Context =
  ctx_data :: "addr option"
  windowID :: nat
  window_w :: int
  window_h :: int
  drawable_w :: int
  drawable_h :: int

text \<open>
  Of \<^verbatim>\<open>GPU_Target\<close> and \<^verbatim>\<open>GPU_Image\<close> the fields are kept that some function of the file
  reads; the others (viewport, clip rectangle, colour, wrap and snap modes, the base
  and texture sizes) are only ever written.
\<close>

record GPU_Target =
  tgt_context_target :: "addr option"
  tgt_image :: "addr option"
  tgt_w :: nat
  tgt_h :: nat
  tgt_context :: "addr option"
  tgt_refcount :: int
  tgt_is_alias :: bool

record GPU_Image =
  img_context_target :: "addr option"
  img_target :: "addr option"
  img_w :: nat
  img_h :: nat
  img_format :: GPU_FormatEnum
  num_layers :: int
  bytes_per_pixel :: int
  anchor_x :: real
  anchor_y :: real
  use_blending :: bool
  blend_mode :: GPU_BlendMode
  filter_mode :: GPU_FilterEnum
  img_data :: "addr option"
  img_refcount :: int
  img_is_alias :: bool

record GPU_Renderer =
  default_image_anchor_x :: real
  default_image_anchor_y :: real
  current_context_target :: "addr option"

record SDL_Surface =
  surface_w :: int
  surface_h :: int
  surface_format :: SDL_PixelFormatEnum
  BytesPerPixel :: int
  pitch :: int

text \<open>The calls that leave the file, with their arguments (and, for a creation, its result).\<close>

datatype sdl_call =
    GPU_PushErrorCode string GPU_ErrorEnum string
  | SDL_CreateRenderer addr "addr option"
  | SDL_DestroyRenderer "addr option"
  | SDL_SetRenderTarget "addr option" "addr option"
  | SDL_CreateTexture "addr option" SDL_PixelFormatEnum nat nat "addr option"
  | SDL_SetTextureBlendMode "addr option"
  | SDL_DestroyTexture "addr option"
  | SDL_RenderCopy "addr option" "addr option" SDL_Rect SDL_Rect
  | SDL_CreateRGBSurface int int SDL_PixelFormatEnum
  | SDL_BlitSurface SDL_Rect
  | SDL_UpdateTexture "addr option" SDL_Rect int int
  | SDL_FreeSurface

record state =
  renderer :: GPU_Renderer
  targets :: "addr \<rightharpoonup> GPU_Target"
  contexts :: "addr \<rightharpoonup> GPU_Context"
  context_datas :: "addr \<rightharpoonup> SW_CONTEXT_DATA"
  images :: "addr \<rightharpoonup> GPU_Image"
  image_datas :: "addr \<rightharpoonup> SW_IMAGE_DATA"
  sdl_windows :: "nat \<rightharpoonup> addr"
  calls :: "sdl_call list"

definition call :: "sdl_call \<Rightarrow> state \<Rightarrow> state" where
  "call c s = s\<lparr>calls := calls s @ [c]\<rparr>"

subsection \<open>The accessors at the head of the file\<close>

definition CONTEXT_DATA :: "state \<Rightarrow> addr option \<Rightarrow> addr option option" where
  "CONTEXT_DATA s context =
     (case context of None \<Rightarrow> Some None | Some c \<Rightarrow> map_option ctx_data (contexts s c))"

definition IMAGE_DATA :: "state \<Rightarrow> addr option \<Rightarrow> addr option option" where
  "IMAGE_DATA s image_ptr =
     (case image_ptr of None \<Rightarrow> Some None | Some i \<Rightarrow> map_option img_data (images s i))"

definition CONTEXT_target :: "state \<Rightarrow> addr option \<Rightarrow> addr option option" where
  "CONTEXT_target s target =
     (case target of
        None \<Rightarrow> Some None
      | Some t \<Rightarrow> do {
          tg \<leftarrow> targets s t;
          ct \<leftarrow> tgt_context_target tg;
          ctg \<leftarrow> targets s ct;
          Some (tgt_context ctg)
        })"

definition CONTEXT_image :: "state \<Rightarrow> addr option \<Rightarrow> addr option option" where
  "CONTEXT_image s image_ptr =
     (case image_ptr of
        None \<Rightarrow> Some None
      | Some i \<Rightarrow> do {
          img \<leftarrow> images s i;
          ct \<leftarrow> img_context_target img;
          ctg \<leftarrow> targets s ct;
          Some (tgt_context ctg)
        })"

text \<open>\<^verbatim>\<open>CONTEXT_DATA(context)->...\<close>: the address of the context's data and the data.\<close>

definition context_data_at :: "state \<Rightarrow> addr option \<Rightarrow> (addr \<times> SW_CONTEXT_DATA) option" where
  "context_data_at s context = do {
     cdp \<leftarrow> CONTEXT_DATA s context;
     cd \<leftarrow> cdp;
     cdata \<leftarrow> context_datas s cd;
     Some (cd, cdata)
   }"

text \<open>\<^verbatim>\<open>IMAGE_DATA(image)->...\<close>, in the same way.\<close>

definition image_data_at :: "state \<Rightarrow> addr option \<Rightarrow> (addr \<times> SW_IMAGE_DATA) option" where
  "image_data_at s image_ptr = do {
     idp \<leftarrow> IMAGE_DATA s image_ptr;
     idt \<leftarrow> idp;
     idata \<leftarrow> image_datas s idt;
     Some (idt, idata)
   }"

definition SDL_RENDERER_context :: "state \<Rightarrow> addr option \<Rightarrow> addr option option" where
  "SDL_RENDERER_context s context =
     (case context of
        None \<Rightarrow> Some None
      | Some c \<Rightarrow> map_option (\<lambda>(cd, cdata). sdl_renderer cdata) (context_data_at s (Some c)))"

definition SDL_RENDERER_target :: "state \<Rightarrow> addr option \<Rightarrow> addr option option" where
  "SDL_RENDERER_target s target = do {
     c \<leftarrow> CONTEXT_target s target;
     SDL_RENDERER_context s c
   }"

definition SDL_RENDERER_image :: "state \<Rightarrow> addr option \<Rightarrow> addr option option" where
  "SDL_RENDERER_image s image_ptr = do {
     c \<leftarrow> CONTEXT_image s image_ptr;
     SDL_RENDERER_context s c
   }"

text \<open>\<^verbatim>\<open>CONTEXT_DATA(target->context_target->context)->...\<close> for a target that is not null.\<close>

definition target_context_data :: "state \<Rightarrow> addr \<Rightarrow> (addr \<times> SW_CONTEXT_DATA) option" where
  "target_context_data s t = do {
     tg \<leftarrow> targets s t;
     ct \<leftarrow> tgt_context_target tg;
     ctg \<leftarrow> targets s ct;
     context_data_at s (tgt_context ctg)
   }"

subsection \<open>setRenderTarget\<close>

definition setRenderTarget :: "state \<Rightarrow> addr option \<Rightarrow> (state \<times> addr option) option" where
  "setRenderTarget s target = do {
     sdlr \<leftarrow> SDL_RENDERER_target s target;
     t \<leftarrow> target;
     (cd, cdata) \<leftarrow> target_context_data s t;
     if render_target cdata \<noteq> Some t then do {
       let s1 = s\<lparr>context_datas := (context_datas s)(cd \<mapsto> cdata\<lparr>render_target := Some t\<rparr>)\<rparr>;
       tg \<leftarrow> targets s1 t;
       (case tgt_image tg of
          Some i \<Rightarrow> do {
            (idt, idata) \<leftarrow> image_data_at s1 (Some i);
            Some (call (SDL_SetRenderTarget sdlr (tex idata)) s1, sdlr)
          }
        | None \<Rightarrow> Some (call (SDL_SetRenderTarget sdlr None) s1, sdlr))
     }
     else Some (s, sdlr)
   }"

subsection \<open>Creation of the renderer, the window target and images\<close>

text \<open>The fields of \<^verbatim>\<open>GPU_Renderer\<close> that \<^verbatim>\<open>swrender_CreateRenderer\<close> sets and the file reads.\<close>

definition swrender_CreateRenderer :: GPU_Renderer where
  "swrender_CreateRenderer =
     \<lparr>default_image_anchor_x = 0.5, default_image_anchor_y = 0.5,
      current_context_target = None\<rparr>"

text \<open>
  \<^verbatim>\<open>swrender_CreateTargetFromWindow\<close>. \<open>create_renderer\<close> is what \<^verbatim>\<open>SDL_CreateRenderer\<close>
  returns, the three \<open>malloc\<close> arguments are what the three calls of \<^verbatim>\<open>SDL_malloc\<close>
  return, \<open>(ww, hh)\<close> is the answer of \<^verbatim>\<open>SDL_GetRendererOutputSize\<close>. When an
  allocation fails the three blocks are passed to \<^verbatim>\<open>SDL_free\<close> and never enter a store;
  the SDL renderer made just before stays as it is.
\<close>

definition swrender_CreateTargetFromWindow ::
  "state \<Rightarrow> nat \<Rightarrow> addr option \<Rightarrow> addr option \<Rightarrow> addr option \<Rightarrow> addr option \<Rightarrow> addr option
     \<Rightarrow> int \<times> int \<Rightarrow> (state \<times> addr option) option" where
  "swrender_CreateTargetFromWindow s window_id target create_renderer
       malloc_target malloc_context malloc_context_data output_size =
     (if target \<noteq> None then
        Some (call (GPU_PushErrorCode ''GPU_CreateTargetFromWindow''
                GPU_ERROR_UNSUPPORTED_FUNCTION ''reinitializing target not supported'') s, None)
      else if current_context_target (renderer s) \<noteq> None then
        Some (call (GPU_PushErrorCode ''GPU_CreateTargetFromWindow''
                GPU_ERROR_UNSUPPORTED_FUNCTION ''multiple windows not supported'') s, None)
      else
        (case sdl_windows s window_id of
           None \<Rightarrow>
             Some (call (GPU_PushErrorCode ''GPU_CreateTargetFromWindow''
                     GPU_ERROR_BACKEND_ERROR
                     ''Failed to acquire the window from the given ID.'') s, None)
         | Some window \<Rightarrow>
             (let s1 = call (SDL_CreateRenderer window create_renderer) s in
              case create_renderer of
                None \<Rightarrow>
                  Some (call (GPU_PushErrorCode ''GPU_CreateTargetFromWindow''
                          GPU_ERROR_BACKEND_ERROR
                          ''Failed to initialize the SDL renderer: %s'') s1, None)
              | Some sdlr \<Rightarrow>
                  (case (malloc_target, malloc_context, malloc_context_data) of
                     (Some t, Some c, Some cd) \<Rightarrow>
                       (let (ww, hh) = output_size in
                        Some (s1\<lparr>context_datas := (context_datas s1)
                                   (cd \<mapsto> \<lparr>sdl_renderer = Some sdlr, render_target = Some t\<rparr>),
                                 contexts := (contexts s1)
                                   (c \<mapsto> \<lparr>ctx_data = Some cd, windowID = window_id,
                                          window_w = ww, window_h = hh,
                                          drawable_w = ww, drawable_h = hh\<rparr>),
                                 targets := (targets s1)
                                   (t \<mapsto> \<lparr>tgt_context_target = Some t, tgt_image = None,
                                          tgt_w = nat (ww mod 65536), tgt_h = nat (hh mod 65536),
                                          tgt_context = Some c, tgt_refcount = 1,
                                          tgt_is_alias = False\<rparr>),
                                 renderer := (renderer s1)\<lparr>current_context_target := Some t\<rparr>\<rparr>,
                              Some t))
                   | _ \<Rightarrow> Some (s1, None)))))"

text \<open>
  \<^verbatim>\<open>swrender_CreateImage\<close>. The two blocks are allocated before the \<^verbatim>\<open>switch\<close>; on each
  failing path both are passed to \<^verbatim>\<open>SDL_free\<close> and do not enter a store.
  \<open>create_texture\<close> is what \<^verbatim>\<open>SDL_CreateTexture\<close> returns.
\<close>

definition swrender_CreateImage ::
  "state \<Rightarrow> nat \<Rightarrow> nat \<Rightarrow> GPU_FormatEnum \<Rightarrow> addr option \<Rightarrow> addr option \<Rightarrow> addr option
     \<Rightarrow> (state \<times> addr option) option" where
  "swrender_CreateImage s iw ih format malloc_image malloc_image_data create_texture =
     (case current_context_target (renderer s) of
        None \<Rightarrow>
          Some (call (GPU_PushErrorCode ''GPU_CreateImage'' GPU_ERROR_USER_ERROR
                  ''No current context'') s, None)
      | Some cct \<Rightarrow> do {
          cctg \<leftarrow> targets s cct;
          let context = tgt_context cctg;
          (case (malloc_image, malloc_image_data) of
             (Some i, Some idt) \<Rightarrow>
               (case (case format of
                        GPU_FORMAT_RGB \<Rightarrow> Some (SDL_PIXELFORMAT_RGB888, 3, 4)
                      | GPU_FORMAT_RGBA \<Rightarrow> Some (SDL_PIXELFORMAT_RGBA8888, 4, 4)
                      | GPU_FORMAT_other n \<Rightarrow> None) of
                  None \<Rightarrow>
                    Some (call (GPU_PushErrorCode ''GPU_CreateImage'' GPU_ERROR_BACKEND_ERROR
                            ''Unsupported format'') s, None)
                | Some (sdl_fmt, layers, bpp) \<Rightarrow> do {
                    sdlr \<leftarrow> SDL_RENDERER_context s context;
                    let s1 = call (SDL_CreateTexture sdlr sdl_fmt iw ih create_texture) s;
                    (case create_texture of
                       None \<Rightarrow>
                         Some (call (GPU_PushErrorCode ''GPU_CreateImage''
                                 GPU_ERROR_BACKEND_ERROR ''SDL_CreateTexture failed: %s'') s1,
                               None)
                     | Some texture \<Rightarrow>
                         Some (call (SDL_SetTextureBlendMode (Some texture))
                                 (s1\<lparr>image_datas := (image_datas s1)
                                        (idt \<mapsto> \<lparr>idata_refcount = 1, sdl_format = sdl_fmt,
                                                tex = Some texture\<rparr>),
                                      images := (images s1)
                                        (i \<mapsto> \<lparr>img_context_target =
                                                 current_context_target (renderer s1),
                                               img_target = None, img_w = iw, img_h = ih,
                                               img_format = format, num_layers = layers,
                                               bytes_per_pixel = bpp,
                                               anchor_x = default_image_anchor_x (renderer s1),
                                               anchor_y = default_image_anchor_y (renderer s1),
                                               use_blending = True,
                                               blend_mode =
                                                 GPU_GetBlendModeFromPreset GPU_BLEND_NORMAL,
                                               filter_mode = GPU_FILTER_LINEAR,
                                               img_data = Some idt, img_refcount = 1,
                                               img_is_alias = False\<rparr>)\<rparr>),
                               Some i))
                  })
           | _ \<Rightarrow> Some (s, None))
        })"

text \<open>
  \<^verbatim>\<open>swrender_CreateAliasImage\<close>. The result of \<^verbatim>\<open>SDL_malloc\<close> is written through at once
  (\<^verbatim>\<open>*result = *image\<close>), with no test in between.
\<close>

definition swrender_CreateAliasImage ::
  "state \<Rightarrow> addr option \<Rightarrow> addr option \<Rightarrow> (state \<times> addr option) option" where
  "swrender_CreateAliasImage s image_ptr malloc_result =
     (case image_ptr of
        None \<Rightarrow> Some (s, None)
      | Some i \<Rightarrow> do {
          result \<leftarrow> malloc_result;
          img \<leftarrow> images s i;
          let s1 = s\<lparr>images := (images s)(result \<mapsto> img)\<rparr>;
          (idt, idata) \<leftarrow> image_data_at s1 (Some i);
          let s2 = s1\<lparr>image_datas := (image_datas s1)
                        (idt \<mapsto> idata\<lparr>idata_refcount := idata_refcount idata + 1\<rparr>)\<rparr>;
          res \<leftarrow> images s2 result;
          Some (s2\<lparr>images := (images s2)
                      (result \<mapsto> res\<lparr>img_refcount := 1, img_is_alias := True\<rparr>)\<rparr>,
                Some result)
        })"

subsection \<open>Uploading pixels\<close>

text \<open>
  \<^verbatim>\<open>swrender_UpdateImage\<close>. The surface is a valid pointer and is given by its fields;
  \<open>converted\<close> is what \<^verbatim>\<open>SDL_CreateRGBSurface\<close> returns when the formats differ. The
  third argument of \<open>SDL_UpdateTexture\<close> is the offset of \<^verbatim>\<open>pixels\<close> from
  \<^verbatim>\<open>surface->pixels\<close>.
\<close>

definition swrender_UpdateImage ::
  "state \<Rightarrow> addr option \<Rightarrow> SDL_Rect option \<Rightarrow> SDL_Surface \<Rightarrow> SDL_Rect option
     \<Rightarrow> SDL_Surface option \<Rightarrow> state option" where
  "swrender_UpdateImage s image_ptr image_rect surface surface_rect converted = do {
     i \<leftarrow> image_ptr;
     img \<leftarrow> images s i;
     let (src, dst) = UpdateImage_clip (int (img_w img)) (int (img_h img)) image_rect
                        (surface_w surface) (surface_h surface) surface_rect;
     if w dst \<le> 0 \<or> h dst \<le> 0 then Some s
     else do {
       (idt, idata) \<leftarrow> image_data_at s image_ptr;
       if sdl_format idata \<noteq> surface_format surface then
         (let s1 = call (SDL_CreateRGBSurface (w src) (h src) (sdl_format idata)) s in
          case converted of
            None \<Rightarrow> Some s1
          | Some conv \<Rightarrow>
              (let s2 = call (SDL_BlitSurface src) s1;
                   src = src\<lparr>x := 0, y := 0, w := surface_w conv, h := surface_h conv\<rparr>;
                   s3 = call (SDL_UpdateTexture (tex idata) dst
                               (int_add (int_mul (BytesPerPixel conv) (x src)) (int_mul (pitch conv) (y src)))
                               (pitch conv)) s2
               in Some (call SDL_FreeSurface s3)))
       else
         Some (call (SDL_UpdateTexture (tex idata) dst
                      (int_add (int_mul (BytesPerPixel surface) (x src)) (int_mul (pitch surface) (y src)))
                      (pitch surface)) s)
     }
   }"

text \<open>\<^verbatim>\<open>swrender_UpdateImageBytes\<close>; the pointer \<^verbatim>\<open>bytes\<close> is given by its offset.\<close>

definition swrender_UpdateImageBytes ::
  "state \<Rightarrow> addr option \<Rightarrow> SDL_Rect option \<Rightarrow> int \<Rightarrow> state option" where
  "swrender_UpdateImageBytes s image_ptr image_rect bytes_per_row = do {
     image_data \<leftarrow> IMAGE_DATA s image_ptr;
     i \<leftarrow> image_ptr;
     img \<leftarrow> images s i;
     let (bytes, dst) = UpdateImageBytes_clip (int (img_w img)) (int (img_h img))
                          (bytes_per_pixel img) image_rect bytes_per_row;
     if w dst \<le> 0 \<or> h dst \<le> 0 then Some s
     else do {
       idt \<leftarrow> image_data;
       idata \<leftarrow> image_datas s idt;
       Some (call (SDL_UpdateTexture (tex idata) dst bytes bytes_per_row) s)
     }
   }"

subsection \<open>Releasing and loading targets, releasing images\<close>

text \<open>\<^verbatim>\<open>SDL_free\<close> on a context's data: nothing for \<^verbatim>\<open>NULL\<close>, undefined for a block not allocated.\<close>

definition free_context_data :: "state \<Rightarrow> addr option \<Rightarrow> state option" where
  "free_context_data s p =
     (case p of
        None \<Rightarrow> Some s
      | Some cd \<Rightarrow>
          (if cd \<in> dom (context_datas s)
           then Some (s\<lparr>context_datas := (context_datas s)(cd := None)\<rparr>)
           else None))"

text \<open>
  \<^verbatim>\<open>swrender_FreeTarget\<close>, in three definitions. The first is the statement
  \<^verbatim>\<open>if( !target->is_alias && target->image ) target->image->target = NULL;\<close>
\<close>

definition FreeTarget_detach :: "state \<Rightarrow> GPU_Target \<Rightarrow> state option" where
  "FreeTarget_detach s tg =
     (if \<not> tgt_is_alias tg \<and> tgt_image tg \<noteq> None then do {
        i \<leftarrow> tgt_image tg;
        img \<leftarrow> images s i;
        Some (s\<lparr>images := (images s)(i \<mapsto> img\<lparr>img_target := None\<rparr>)\<rparr>)
      }
      else Some s)"

text \<open>
  The second is the statement \<^verbatim>\<open>if ( target->context ) { ... } else { ... }\<close> that
  follows: a window target tears its context down, another target gives the cached
  render target back to the window target when it holds it.
\<close>

definition FreeTarget_context :: "state \<Rightarrow> addr \<Rightarrow> GPU_Target \<Rightarrow> state option" where
  "FreeTarget_context s t tg =
     (case tgt_context tg of
        Some c \<Rightarrow> do {
          sdlr \<leftarrow> SDL_RENDERER_context s (Some c);
          let sa = call (SDL_DestroyRenderer sdlr) s;
          ctx \<leftarrow> contexts sa c;
          sb \<leftarrow> free_context_data sa (ctx_data ctx);
          let sc = sb\<lparr>contexts := (contexts sb)(c := None),
                      targets := (targets sb)(t \<mapsto> tg\<lparr>tgt_context := None\<rparr>)\<rparr>;
          Some (if current_context_target (renderer sc) = Some t
                then sc\<lparr>renderer := (renderer sc)\<lparr>current_context_target := None\<rparr>\<rparr>
                else sc)
        }
      | None \<Rightarrow> do {
          (cd, cdata) \<leftarrow> target_context_data s t;
          if render_target cdata = Some t
          then map_option fst (setRenderTarget s (tgt_context_target tg))
          else Some s
        })"

definition swrender_FreeTarget :: "state \<Rightarrow> addr option \<Rightarrow> state option" where
  "swrender_FreeTarget s target =
     (case target of
        None \<Rightarrow> Some s
      | Some t \<Rightarrow> do {
          tg \<leftarrow> targets s t;
          let tg = tg\<lparr>tgt_refcount := tgt_refcount tg - 1\<rparr>;
          let s1 = s\<lparr>targets := (targets s)(t \<mapsto> tg)\<rparr>;
          if tgt_refcount tg > 0 then Some s1
          else do {
            s2 \<leftarrow> FreeTarget_detach s1 tg;
            s3 \<leftarrow> FreeTarget_context s2 t tg;
            Some (s3\<lparr>targets := (targets s3)(t := None)\<rparr>)
          }
        })"

text \<open>
  \<^verbatim>\<open>swrender_FreeImage\<close>, in three definitions. The first is the block under
  \<^verbatim>\<open>// Delete the attached target first\<close>; \<^verbatim>\<open>renderer->impl->FreeTarget\<close> is
  \<^verbatim>\<open>swrender_FreeTarget\<close>.
\<close>

definition FreeImage_target :: "state \<Rightarrow> addr \<Rightarrow> GPU_Image \<Rightarrow> state option" where
  "FreeImage_target s i img =
     (case img_target img of
        Some t \<Rightarrow>
          swrender_FreeTarget (s\<lparr>images := (images s)(i \<mapsto> img\<lparr>img_target := None\<rparr>)\<rparr>) (Some t)
      | None \<Rightarrow> Some s)"

text \<open>The second is the block under \<^verbatim>\<open>// Does the renderer data need to be freed too?\<close>\<close>

definition FreeImage_data :: "state \<Rightarrow> addr \<Rightarrow> state option" where
  "FreeImage_data s i = do {
     (idt, idata) \<leftarrow> image_data_at s (Some i);
     let idata = idata\<lparr>idata_refcount := idata_refcount idata - 1\<rparr>;
     Some (if idata_refcount idata \<le> 0
           then (call (SDL_DestroyTexture (tex idata)) s)
                  \<lparr>image_datas := (image_datas s)(idt := None)\<rparr>
           else s\<lparr>image_datas := (image_datas s)(idt \<mapsto> idata)\<rparr>)
   }"

definition swrender_FreeImage :: "state \<Rightarrow> addr option \<Rightarrow> state option" where
  "swrender_FreeImage s image_ptr =
     (case image_ptr of
        None \<Rightarrow> Some s
      | Some i \<Rightarrow> do {
          img \<leftarrow> images s i;
          let img = img\<lparr>img_refcount := img_refcount img - 1\<rparr>;
          let s1 = s\<lparr>images := (images s)(i \<mapsto> img)\<rparr>;
          if img_refcount img > 0 then Some s1
          else do {
            s2 \<leftarrow> FreeImage_target s1 i img;
            s3 \<leftarrow> FreeImage_data s2 i;
            Some (s3\<lparr>images := (images s3)(i := None)\<rparr>)
          }
        })"

text \<open>\<^verbatim>\<open>swrender_LoadTarget\<close>; \<open>malloc_target\<close> is what \<^verbatim>\<open>SDL_malloc\<close> returns, if it is called.\<close>

definition swrender_LoadTarget ::
  "state \<Rightarrow> addr option \<Rightarrow> addr option \<Rightarrow> (state \<times> addr option) option" where
  "swrender_LoadTarget s image_ptr malloc_target =
     (case image_ptr of
        None \<Rightarrow> Some (s, None)
      | Some i \<Rightarrow> do {
          img \<leftarrow> images s i;
          (case img_target img of
             Some t \<Rightarrow> do {
               tg \<leftarrow> targets s t;
               Some (s\<lparr>targets := (targets s)
                          (t \<mapsto> tg\<lparr>tgt_refcount := tgt_refcount tg + 1\<rparr>)\<rparr>,
                     Some t)
             }
           | None \<Rightarrow>
               (case malloc_target of
                  None \<Rightarrow> Some (s, None)
                | Some t \<Rightarrow>
                    Some (s\<lparr>targets := (targets s)
                               (t \<mapsto> \<lparr>tgt_context_target = img_context_target img,
                                      tgt_image = Some i, tgt_w = img_w img, tgt_h = img_h img,
                                      tgt_context = None, tgt_refcount = 1,
                                      tgt_is_alias = False\<rparr>),
                             images := (images s)(i \<mapsto> img\<lparr>img_target := Some t\<rparr>)\<rparr>,
                          Some t)))
        })"

subsection \<open>Blit\<close>

text \<open>
  \<^verbatim>\<open>swrender_Blit\<close>. The origin of \<open>dst\<close> is computed in floating point from \<^verbatim>\<open>x\<close>,
  \<^verbatim>\<open>y\<close> and the image's anchor and then converted to \<^verbatim>\<open>int\<close>; the converted pair is the
  argument \<open>dst_origin\<close>.
\<close>

definition swrender_Blit ::
  "state \<Rightarrow> addr option \<Rightarrow> SDL_Rect option \<Rightarrow> addr option \<Rightarrow> int \<times> int \<Rightarrow> state option" where
  "swrender_Blit s image_ptr src_rect target dst_origin = do {
     i \<leftarrow> image_ptr;
     img \<leftarrow> images s i;
     let src = rect_or_full src_rect (int (img_w img)) (int (img_h img));
     let dst = \<lparr>x = fst dst_origin, y = snd dst_origin, w = w src, h = h src\<rparr>;
     (s1, sdlr) \<leftarrow> setRenderTarget s target;
     (idt, idata) \<leftarrow> image_data_at s1 image_ptr;
     Some (call (SDL_RenderCopy sdlr (tex idata) src dst) s1)
   }"

text \<open>How often \<^verbatim>\<open>SDL_SetRenderTarget\<close> occurs in a list of calls.\<close>

fun is_SDL_SetRenderTarget :: "sdl_call \<Rightarrow> bool" where
  "is_SDL_SetRenderTarget (SDL_SetRenderTarget r t) = True"
| "is_SDL_SetRenderTarget _ = False"

definition count_SDL_SetRenderTarget :: "sdl_call list \<Rightarrow> nat" where
  "count_SDL_SetRenderTarget cs = length (filter is_SDL_SetRenderTarget cs)"

subsection \<open>Notions used to state the properties\<close>

text \<open>
  A rectangle lies fully outside a texture of the given size: it starts at or beyond the
  right or bottom edge, or it ends at or before the left or top edge.
\<close>

definition rect_outside :: "SDL_Rect \<Rightarrow> int \<Rightarrow> int \<Rightarrow> bool" where
  "rect_outside r tex_w tex_h =
     (x r \<ge> tex_w \<or> y r \<ge> tex_h \<or> x r + w r \<le> 0 \<or> y r + h r \<le> 0)"

text \<open>All four fields of a rectangle are at most \<open>b\<close> in absolute value.\<close>

definition rect_within :: "int \<Rightarrow> SDL_Rect \<Rightarrow> bool" where
  "rect_within b r = (- b \<le> x r \<and> x r \<le> b \<and> - b \<le> y r \<and> y r \<le> b
                      \<and> - b \<le> w r \<and> w r \<le> b \<and> - b \<le> h r \<and> h r \<le> b)"

definition opt_rect_within :: "int \<Rightarrow> SDL_Rect option \<Rightarrow> bool" where
  "opt_rect_within b r = (case r of None \<Rightarrow> True | Some r' \<Rightarrow> rect_within b r')"

fun is_SDL_DestroyTexture :: "sdl_call \<Rightarrow> bool" where
  "is_SDL_DestroyTexture (SDL_DestroyTexture t) = True"
| "is_SDL_DestroyTexture _ = False"

text \<open>The error kinds pushed so far, in order.\<close>

fun pushed_error :: "sdl_call \<Rightarrow> GPU_ErrorEnum option" where
  "pushed_error (GPU_PushErrorCode f e m) = Some e"
| "pushed_error _ = None"

definition pushed_errors :: "state \<Rightarrow> GPU_ErrorEnum list" where
  "pushed_errors s = List.map_filter pushed_error (calls s)"

subsection \<open>A run of the renderer, used as the concrete input of the examples\<close>

text \<open>
  \<open>st0\<close> is the state after \<^verbatim>\<open>swrender_CreateRenderer\<close>, with one SDL window of id 1.
  \<open>st_window\<close> is reached from it by \<^verbatim>\<open>swrender_CreateTargetFromWindow\<close>, \<open>st_image\<close>
  from that by \<^verbatim>\<open>swrender_CreateImage\<close> for a 10 by 10 RGBA image, and \<open>st_loaded\<close> by
  \<^verbatim>\<open>swrender_LoadTarget\<close> on this image; \<open>st_loaded2\<close> and \<open>st_loaded3\<close> follow by
  calling it again, once and twice.
\<close>

definition st0 :: state where
  "st0 = \<lparr>renderer = swrender_CreateRenderer, targets = Map.empty, contexts = Map.empty,
          context_datas = Map.empty, images = Map.empty, image_datas = Map.empty,
          sdl_windows = [1 \<mapsto> 500], calls = []\<rparr>"

definition window_target :: GPU_Target where
  "window_target = \<lparr>tgt_context_target = Some 10, tgt_image = None, tgt_w = 640, tgt_h = 480,
                     tgt_context = Some 20, tgt_refcount = 1, tgt_is_alias = False\<rparr>"

definition window_context :: GPU_Context where
  "window_context = \<lparr>ctx_data = Some 30, windowID = 1, window_w = 640, window_h = 480,
                      drawable_w = 640, drawable_h = 480\<rparr>"

definition window_context_data :: SW_CONTEXT_DATA where
  "window_context_data = \<lparr>sdl_renderer = Some 600, render_target = Some 10\<rparr>"

definition st_window :: state where
  "st_window = \<lparr>renderer = \<lparr>default_image_anchor_x = 0.5, default_image_anchor_y = 0.5,
                              current_context_target = Some 10\<rparr>,
                targets = [10 \<mapsto> window_target], contexts = [20 \<mapsto> window_context],
                context_datas = [30 \<mapsto> window_context_data],
                images = Map.empty, image_datas = Map.empty,
                sdl_windows = [1 \<mapsto> 500], calls = [SDL_CreateRenderer 500 (Some 600)]\<rparr>"

definition rgba_image :: GPU_Image where
  "rgba_image = \<lparr>img_context_target = Some 10, img_target = None, img_w = 10, img_h = 10,
                  img_format = GPU_FORMAT_RGBA, num_layers = 4, bytes_per_pixel = 4,
                  anchor_x = 0.5, anchor_y = 0.5, use_blending = True,
                  blend_mode = GPU_GetBlendModeFromPreset GPU_BLEND_NORMAL,
                  filter_mode = GPU_FILTER_LINEAR, img_data = Some 50, img_refcount = 1,
                  img_is_alias = False\<rparr>"

definition rgba_image_data :: SW_IMAGE_DATA where
  "rgba_image_data = \<lparr>idata_refcount = 1, sdl_format = SDL_PIXELFORMAT_RGBA8888,
                       tex = Some 700\<rparr>"

definition st_image :: state where
  "st_image = \<lparr>renderer = \<lparr>default_image_anchor_x = 0.5, default_image_anchor_y = 0.5,
                             current_context_target = Some 10\<rparr>,
               targets = [10 \<mapsto> window_target], contexts = [20 \<mapsto> window_context],
               context_datas = [30 \<mapsto> window_context_data],
               images = [40 \<mapsto> rgba_image], image_datas = [50 \<mapsto> rgba_image_data],
               sdl_windows = [1 \<mapsto> 500],
               calls = [SDL_CreateRenderer 500 (Some 600),
                        SDL_CreateTexture (Some 600) SDL_PIXELFORMAT_RGBA8888 10 10 (Some 700),
                        SDL_SetTextureBlendMode (Some 700)]\<rparr>"

definition image_target :: GPU_Target where
  "image_target = \<lparr>tgt_context_target = Some 10, tgt_image = Some 40, tgt_w = 10, tgt_h = 10,
                    tgt_context = None, tgt_refcount = 1, tgt_is_alias = False\<rparr>"

definition st_loaded :: state where
  "st_loaded = st_image\<lparr>targets := [10 \<mapsto> window_target, 11 \<mapsto> image_target],
                        images := [40 \<mapsto> rgba_image\<lparr>img_target := Some 11\<rparr>]\<rparr>"



definition rgba_surface :: SDL_Surface where
  "rgba_surface = \<lparr>surface_w = 10, surface_h = 10, surface_format = SDL_PIXELFORMAT_RGBA8888,
                    BytesPerPixel = 4, pitch = 40\<rparr>"

definition st_blit1 :: state where
  "st_blit1 = st_loaded\<lparr>context_datas := [30 \<mapsto> window_context_data\<lparr>render_target := Some 11\<rparr>],
                         calls := calls st_loaded @
                           [SDL_SetRenderTarget (Some 600) (Some 700),
                            SDL_RenderCopy (Some 600) (Some 700)
                              \<lparr>x = 0, y = 0, w = 10, h = 10\<rparr> \<lparr>x = 0, y = 0, w = 10, h = 10\<rparr>]\<rparr>"

definition st_blit2 :: state where
  "st_blit2 = st_blit1\<lparr>calls := calls st_blit1 @
                           [SDL_RenderCopy (Some 600) (Some 700)
                              \<lparr>x = 0, y = 0, w = 10, h = 10\<rparr> \<lparr>x = 3, y = 4, w = 10, h = 10\<rparr>]\<rparr>"

text \<open>
  \<open>st_alias\<close> is reached from \<open>st_image\<close> by \<^verbatim>\<open>swrender_CreateAliasImage\<close>;
  \<open>st_released\<close> is \<open>st_image\<close> after its one image has been released.
\<close>

definition st_alias :: state where
  "st_alias = st_image\<lparr>images := [40 \<mapsto> rgba_image,
                                   41 \<mapsto> rgba_image\<lparr>img_refcount := 1, img_is_alias := True\<rparr>],
                        image_datas := [50 \<mapsto> rgba_image_data\<lparr>idata_refcount := 2\<rparr>]\<rparr>"

definition st_released :: state where
  "st_released = st_image\<lparr>images := Map.empty, image_datas := Map.empty,
                           calls := calls st_image @ [SDL_DestroyTexture (Some 700)]\<rparr>"

section \<open>Properties\<close>

subsection \<open>The example run\<close>

lemma st_window_created:
  "swrender_CreateTargetFromWindow st0 1 None (Some 600) (Some 10) (Some 20) (Some 30) (640, 480)
     = Some (st_window, Some 10)"
  by (simp add: swrender_CreateTargetFromWindow_def st0_def st_window_def call_def
      swrender_CreateRenderer_def window_target_def window_context_def window_context_data_def)

lemma st_image_created:
  "swrender_CreateImage st_window 10 10 GPU_FORMAT_RGBA (Some 40) (Some 50) (Some 700)
     = Some (st_image, Some 40)"
  by (simp add: swrender_CreateImage_def st_window_def st_image_def call_def
      SDL_RENDERER_context_def context_data_at_def CONTEXT_DATA_def
      window_target_def window_context_def window_context_data_def
      rgba_image_def rgba_image_data_def)

lemma st_loaded_created:
  "swrender_LoadTarget st_image (Some 40) (Some 11) = Some (st_loaded, Some 11)"
  by (simp add: swrender_LoadTarget_def st_loaded_def st_image_def rgba_image_def
      image_target_def)

subsection \<open>Clipping\<close>

lemma int_wrap_id: "- 2147483648 \<le> v \<Longrightarrow> v < 2147483648 \<Longrightarrow> int_wrap v = v"
  by (simp add: int_wrap_def)

lemmas int_ops = int_add_def int_sub_def int_neg_def int_mul_def

lemmas clip_defs = UpdateImage_clip_def clip_src_to_surface_def clip_dst_to_image_def
  clip_dst_against_src_def rect_or_full_def

text \<open>
  C1. A 10 by 10 surface, a 10 by 10 image, the source rectangle \<open>{-2, 0, 5, 5}\<close> and no
  destination rectangle: the clipping phase gives the source rectangle \<open>{0, 0, 3, 5}\<close> and
  the destination rectangle \<open>{2, 0, 3, 5}\<close>. The first phase moves both origins by the
  overhang 2 and takes 2 from both widths; the copy is then issued with these rectangles.
\<close>

theorem UpdateImage_clip_negative_origin:
  "UpdateImage_clip 10 10 None 10 10 (Some \<lparr>x = -2, y = 0, w = 5, h = 5\<rparr>)
     = (\<lparr>x = 0, y = 0, w = 3, h = 5\<rparr>, \<lparr>x = 2, y = 0, w = 3, h = 5\<rparr>)
   \<and> clip_src_to_surface 10 10
       (rect_or_full (Some \<lparr>x = -2, y = 0, w = 5, h = 5\<rparr>) 10 10, rect_or_full None 10 10)
     = (\<lparr>x = 0, y = 0, w = 3, h = 5\<rparr>, \<lparr>x = 2, y = 0, w = 8, h = 10\<rparr>)
   \<and> swrender_UpdateImage st_image (Some 40) None rgba_surface
       (Some \<lparr>x = -2, y = 0, w = 5, h = 5\<rparr>) None
     = Some (call (SDL_UpdateTexture (Some 700) \<lparr>x = 2, y = 0, w = 3, h = 5\<rparr> 0 40) st_image)"
  by (simp add: clip_defs Let_def swrender_UpdateImage_def st_image_def rgba_image_def
      rgba_surface_def image_data_at_def IMAGE_DATA_def rgba_image_data_def int_ops
      int_wrap_def)

lemma clip_dst_against_src_min:
  "clip_dst_against_src (src, dst)
     = (src, dst\<lparr>w := min (w src) (w dst), h := min (h src) (h dst)\<rparr>)"
  by (simp add: clip_dst_against_src_def Let_def min_def)

text \<open>
  C2. After the clipping phase the destination rectangle is no wider and no higher than
  the source rectangle. The last step replaces each destination extent by the minimum of
  the two and returns the source rectangle as it received it.
\<close>

theorem UpdateImage_clip_pairing:
  "w (snd (UpdateImage_clip iw ih ir sw sh sr)) \<le> w (fst (UpdateImage_clip iw ih ir sw sh sr))
   \<and> h (snd (UpdateImage_clip iw ih ir sw sh sr)) \<le> h (fst (UpdateImage_clip iw ih ir sw sh sr))
   \<and> UpdateImage_clip iw ih ir sw sh sr =
       (let (src, dst) = clip_dst_to_image iw ih
                           (clip_src_to_surface sw sh
                              (rect_or_full sr sw sh, rect_or_full ir iw ih))
        in (src, dst\<lparr>w := min (w src) (w dst), h := min (h src) (h dst)\<rparr>))"
  by (cases "clip_dst_to_image iw ih
               (clip_src_to_surface sw sh (rect_or_full sr sw sh, rect_or_full ir iw ih))")
     (simp add: UpdateImage_clip_def clip_dst_against_src_min Let_def)

theorem UpdateImage_clip_pairing_witness:
  "w (snd (UpdateImage_clip 10 10 None 10 10 (Some \<lparr>x = -2, y = 0, w = 5, h = 5\<rparr>))) = 3
   \<and> w (fst (UpdateImage_clip 10 10 None 10 10 (Some \<lparr>x = -2, y = 0, w = 5, h = 5\<rparr>))) = 3
   \<and> w (snd (clip_dst_to_image 10 10
       (clip_src_to_surface 10 10
          (rect_or_full (Some \<lparr>x = -2, y = 0, w = 5, h = 5\<rparr>) 10 10,
           rect_or_full None 10 10)))) = 8"
  using UpdateImage_clip_pairing [of 10 10 None 10 10 "Some \<lparr>x = -2, y = 0, w = 5, h = 5\<rparr>"]
  by (simp add: clip_defs Let_def int_ops int_wrap_def)

lemma clip_src_to_surface_dst:
  assumes "rect_within 67108864 src" "rect_within 67108864 dst"
    and "- 67108864 \<le> sw" "sw \<le> 67108864" "- 67108864 \<le> sh" "sh \<le> 67108864"
    and "clip_src_to_surface sw sh (src, dst) = (src', dst')"
  shows "x dst \<le> x dst' \<and> x dst' + w dst' \<le> x dst + w dst
     \<and> y dst \<le> y dst' \<and> y dst' + h dst' \<le> y dst + h dst
     \<and> rect_within 536870912 dst'"
  using assms
  by (auto simp: clip_src_to_surface_def Let_def rect_within_def int_ops int_wrap_id split: if_splits)

lemma rect_or_full_within:
  assumes "opt_rect_within b r" "0 \<le> fw" "fw \<le> b" "0 \<le> fh" "fh \<le> b"
  shows "rect_within b (rect_or_full r fw fh)"
  using assms by (cases r) (auto simp: opt_rect_within_def rect_within_def rect_or_full_def)

lemma clip_dst_to_image_outside:
  assumes "rect_within 536870912 dst" "0 \<le> iw" "iw \<le> 67108864" "0 \<le> ih" "ih \<le> 67108864"
    and "clip_dst_to_image iw ih (src, dst) = (src', dst')"
  shows "(x dst \<ge> iw \<or> x dst + w dst \<le> 0 \<longrightarrow> w dst' \<le> 0)
     \<and> (y dst \<ge> ih \<or> y dst + h dst \<le> 0 \<longrightarrow> h dst' \<le> 0)"
  using assms
  by (auto simp: clip_dst_to_image_def Let_def rect_within_def int_ops int_wrap_id split: if_splits)

lemma clip_dst_against_src_le:
  "clip_dst_against_src (src, dst) = (src', dst') \<Longrightarrow> w dst' \<le> w dst \<and> h dst' \<le> h dst"
  by (auto simp: clip_dst_against_src_def Let_def split: if_splits)

lemma UpdateImage_clip_outside:
  assumes out: "rect_outside r iw ih"
    and r: "rect_within 67108864 r" and sr: "opt_rect_within 67108864 sr"
    and dims: "0 \<le> iw" "iw \<le> 67108864" "0 \<le> ih" "ih \<le> 67108864"
      "0 \<le> sw" "sw \<le> 67108864" "0 \<le> sh" "sh \<le> 67108864"
  shows "w (snd (UpdateImage_clip iw ih (Some r) sw sh sr)) \<le> 0
       \<or> h (snd (UpdateImage_clip iw ih (Some r) sw sh sr)) \<le> 0"
proof -
  let ?s0 = "rect_or_full sr sw sh"
  let ?d0 = "rect_or_full (Some r) iw ih"
  have d0: "x ?d0 = x r" "y ?d0 = y r" "w ?d0 = w r" "h ?d0 = h r"
    by (simp_all add: rect_or_full_def)
  have s0w: "rect_within 67108864 ?s0"
    using sr dims by (intro rect_or_full_within) simp_all
  have d0w: "rect_within 67108864 ?d0"
    using r by (simp add: rect_within_def d0)
  obtain s1 d1 where p1: "clip_src_to_surface sw sh (?s0, ?d0) = (s1, d1)"
    by fastforce
  obtain s2 d2 where p2: "clip_dst_to_image iw ih (s1, d1) = (s2, d2)"
    by fastforce
  obtain s3 d3 where p3: "clip_dst_against_src (s2, d2) = (s3, d3)"
    by fastforce
  have res: "UpdateImage_clip iw ih (Some r) sw sh sr = (s3, d3)"
    by (simp add: UpdateImage_clip_def p1 p2 p3)
  have st1: "x ?d0 \<le> x d1 \<and> x d1 + w d1 \<le> x ?d0 + w ?d0
     \<and> y ?d0 \<le> y d1 \<and> y d1 + h d1 \<le> y ?d0 + h ?d0
     \<and> rect_within 536870912 d1"
    using s0w d0w dims p1 by (intro clip_src_to_surface_dst) simp_all
  with out d0
  have "x d1 \<ge> iw \<or> x d1 + w d1 \<le> 0 \<or> y d1 \<ge> ih \<or> y d1 + h d1 \<le> 0"
    unfolding rect_outside_def by linarith
  moreover have "(x d1 \<ge> iw \<or> x d1 + w d1 \<le> 0 \<longrightarrow> w d2 \<le> 0)
     \<and> (y d1 \<ge> ih \<or> y d1 + h d1 \<le> 0 \<longrightarrow> h d2 \<le> 0)"
    using st1 dims p2 by (intro clip_dst_to_image_outside) simp_all
  ultimately have "w d2 \<le> 0 \<or> h d2 \<le> 0"
    by blast
  with clip_dst_against_src_le [OF p3] have "w d3 \<le> 0 \<or> h d3 \<le> 0"
    by linarith
  then show ?thesis by (simp add: res)
qed

lemma UpdateImageBytes_clip_outside:
  assumes "rect_outside r iw ih" "rect_within 67108864 r"
    and "0 \<le> iw" "iw \<le> 67108864" "0 \<le> ih" "ih \<le> 67108864"
  shows "w (snd (UpdateImageBytes_clip iw ih bpp (Some r) bpr)) \<le> 0
       \<or> h (snd (UpdateImageBytes_clip iw ih bpp (Some r) bpr)) \<le> 0"
  using assms
  by (auto simp: UpdateImageBytes_clip_def rect_outside_def rect_or_full_def Let_def
      rect_within_def int_add_def int_sub_def int_neg_def int_wrap_id)


lemma UpdateImage_empty:
  assumes "images s i = Some img"
    and "w (snd (UpdateImage_clip (int (img_w img)) (int (img_h img)) ir
                   (surface_w sf) (surface_h sf) sr)) \<le> 0
       \<or> h (snd (UpdateImage_clip (int (img_w img)) (int (img_h img)) ir
                   (surface_w sf) (surface_h sf) sr)) \<le> 0"
  shows "swrender_UpdateImage s (Some i) ir sf sr conv = Some s"
  using assms by (auto simp: swrender_UpdateImage_def Let_def split: prod.splits)

lemma UpdateImageBytes_empty:
  assumes "images s i = Some img"
    and "w (snd (UpdateImageBytes_clip (int (img_w img)) (int (img_h img))
                   (bytes_per_pixel img) ir bpr)) \<le> 0
       \<or> h (snd (UpdateImageBytes_clip (int (img_w img)) (int (img_h img))
                   (bytes_per_pixel img) ir bpr)) \<le> 0"
  shows "swrender_UpdateImageBytes s (Some i) ir bpr = Some s"
  using assms
  by (auto simp: swrender_UpdateImageBytes_def IMAGE_DATA_def Let_def split: prod.splits)

text \<open>
  C3, as amended. For an allocated image, when the clipped destination rectangle has a
  width or a height that is not positive, \<^verbatim>\<open>swrender_UpdateImage\<close> and
  \<^verbatim>\<open>swrender_UpdateImageBytes\<close> return the state they were given: no call of SDL is made,
  no error is pushed. This is the case whenever the caller's destination rectangle lies
  fully outside the texture, for instance when its \<open>x\<close> is at least the texture's width,
  and the coordinates and extents of the rectangles and the sizes of the surface and of
  the image are at most \<open>2\<^sup>2\<^sup>6\<close> in absolute value, so that no sum of the clipping
  leaves the range of \<^verbatim>\<open>int\<close>.
\<close>

theorem update_nothing_left:
  assumes "images s i = Some img"
  shows "(w (snd (UpdateImage_clip (int (img_w img)) (int (img_h img)) ir
                    (surface_w sf) (surface_h sf) sr)) \<le> 0
          \<or> h (snd (UpdateImage_clip (int (img_w img)) (int (img_h img)) ir
                      (surface_w sf) (surface_h sf) sr)) \<le> 0
         \<longrightarrow> swrender_UpdateImage s (Some i) ir sf sr conv = Some s)
       \<and> (w (snd (UpdateImageBytes_clip (int (img_w img)) (int (img_h img))
                    (bytes_per_pixel img) ir bpr)) \<le> 0
          \<or> h (snd (UpdateImageBytes_clip (int (img_w img)) (int (img_h img))
                      (bytes_per_pixel img) ir bpr)) \<le> 0
         \<longrightarrow> swrender_UpdateImageBytes s (Some i) ir bpr = Some s)
       \<and> (rect_outside r (int (img_w img)) (int (img_h img))
          \<and> rect_within 67108864 r \<and> opt_rect_within 67108864 sr
          \<and> int (img_w img) \<le> 67108864 \<and> int (img_h img) \<le> 67108864
          \<and> 0 \<le> surface_w sf \<and> surface_w sf \<le> 67108864
          \<and> 0 \<le> surface_h sf \<and> surface_h sf \<le> 67108864
         \<longrightarrow> swrender_UpdateImage s (Some i) (Some r) sf sr conv = Some s
           \<and> swrender_UpdateImageBytes s (Some i) (Some r) bpr = Some s)"
proof (intro conjI impI)
  assume "w (snd (UpdateImage_clip (int (img_w img)) (int (img_h img)) ir
                    (surface_w sf) (surface_h sf) sr)) \<le> 0
          \<or> h (snd (UpdateImage_clip (int (img_w img)) (int (img_h img)) ir
                      (surface_w sf) (surface_h sf) sr)) \<le> 0"
  then show "swrender_UpdateImage s (Some i) ir sf sr conv = Some s"
    by (rule UpdateImage_empty [OF assms])
next
  assume "w (snd (UpdateImageBytes_clip (int (img_w img)) (int (img_h img))
                    (bytes_per_pixel img) ir bpr)) \<le> 0
          \<or> h (snd (UpdateImageBytes_clip (int (img_w img)) (int (img_h img))
                      (bytes_per_pixel img) ir bpr)) \<le> 0"
  then show "swrender_UpdateImageBytes s (Some i) ir bpr = Some s"
    by (rule UpdateImageBytes_empty [OF assms])
next
  assume a: "rect_outside r (int (img_w img)) (int (img_h img))
          \<and> rect_within 67108864 r \<and> opt_rect_within 67108864 sr
          \<and> int (img_w img) \<le> 67108864 \<and> int (img_h img) \<le> 67108864
          \<and> 0 \<le> surface_w sf \<and> surface_w sf \<le> 67108864
          \<and> 0 \<le> surface_h sf \<and> surface_h sf \<le> 67108864"
  then have "w (snd (UpdateImage_clip (int (img_w img)) (int (img_h img)) (Some r)
                    (surface_w sf) (surface_h sf) sr)) \<le> 0
          \<or> h (snd (UpdateImage_clip (int (img_w img)) (int (img_h img)) (Some r)
                      (surface_w sf) (surface_h sf) sr)) \<le> 0"
    by (intro UpdateImage_clip_outside) simp_all
  then show "swrender_UpdateImage s (Some i) (Some r) sf sr conv = Some s"
    by (rule UpdateImage_empty [OF assms])
next
  assume a: "rect_outside r (int (img_w img)) (int (img_h img))
          \<and> rect_within 67108864 r \<and> opt_rect_within 67108864 sr
          \<and> int (img_w img) \<le> 67108864 \<and> int (img_h img) \<le> 67108864
          \<and> 0 \<le> surface_w sf \<and> surface_w sf \<le> 67108864
          \<and> 0 \<le> surface_h sf \<and> surface_h sf \<le> 67108864"
  then have "w (snd (UpdateImageBytes_clip (int (img_w img)) (int (img_h img))
                    (bytes_per_pixel img) (Some r) bpr)) \<le> 0
          \<or> h (snd (UpdateImageBytes_clip (int (img_w img)) (int (img_h img))
                      (bytes_per_pixel img) (Some r) bpr)) \<le> 0"
    by (intro UpdateImageBytes_clip_outside) simp_all
  then show "swrender_UpdateImageBytes s (Some i) (Some r) bpr = Some s"
    by (rule UpdateImageBytes_empty [OF assms])
qed

theorem update_nothing_left_witness:
  "images st_image 40 = Some rgba_image
   \<and> rect_outside \<lparr>x = 10, y = 0, w = 5, h = 5\<rparr>
       (int (img_w rgba_image)) (int (img_h rgba_image))
   \<and> rect_within 67108864 \<lparr>x = 10, y = 0, w = 5, h = 5\<rparr> \<and> opt_rect_within 67108864 None
   \<and> int (img_w rgba_image) \<le> 67108864 \<and> int (img_h rgba_image) \<le> 67108864
   \<and> 0 \<le> surface_w rgba_surface \<and> surface_w rgba_surface \<le> 67108864
   \<and> 0 \<le> surface_h rgba_surface \<and> surface_h rgba_surface \<le> 67108864
   \<and> swrender_UpdateImage st_image (Some 40) (Some \<lparr>x = 10, y = 0, w = 5, h = 5\<rparr>)
       rgba_surface None None = Some st_image
   \<and> swrender_UpdateImageBytes st_image (Some 40) (Some \<lparr>x = 10, y = 0, w = 5, h = 5\<rparr>) 40
       = Some st_image"
proof -
  have a: "images st_image 40 = Some rgba_image"
    by (simp add: st_image_def)
  have b: "rect_outside \<lparr>x = 10, y = 0, w = 5, h = 5\<rparr>
             (int (img_w rgba_image)) (int (img_h rgba_image))"
    "rect_within 67108864 \<lparr>x = 10, y = 0, w = 5, h = 5\<rparr>" "opt_rect_within 67108864 None"
    "int (img_w rgba_image) \<le> 67108864" "int (img_h rgba_image) \<le> 67108864"
    "0 \<le> surface_w rgba_surface" "surface_w rgba_surface \<le> 67108864"
    "0 \<le> surface_h rgba_surface" "surface_h rgba_surface \<le> 67108864"
    by (simp_all add: rect_outside_def rect_within_def opt_rect_within_def rgba_image_def
        rgba_surface_def)
  from update_nothing_left
         [OF a, of _ rgba_surface None _ _ "\<lparr>x = 10, y = 0, w = 5, h = 5\<rparr>"] a b
  show ?thesis by blast
qed

text \<open>
  C3, as stated, fails: the destination rectangle \<open>{200, 0, 2147483520, 5}\<close> lies fully
  outside the 10 by 10 texture of \<open>st_image\<close>, its \<open>x\<close> being 200. The sum
  \<^verbatim>\<open>dst.x + dst.w\<close> leaves the range of \<^verbatim>\<open>int\<close> and comes out negative, the test against
  the texture's width fails, the width stays positive, and both functions call
  \<^verbatim>\<open>SDL_UpdateTexture\<close>.
\<close>

theorem update_outside_overflow:
  "images st_image 40 = Some rgba_image
   \<and> rect_outside \<lparr>x = 200, y = 0, w = 2147483520, h = 5\<rparr>
       (int (img_w rgba_image)) (int (img_h rgba_image))
   \<and> int_add 200 2147483520 = - 2147483576
   \<and> swrender_UpdateImageBytes st_image (Some 40)
       (Some \<lparr>x = 200, y = 0, w = 2147483520, h = 5\<rparr>) 40
     = Some (call (SDL_UpdateTexture (Some 700)
                    \<lparr>x = 200, y = 0, w = 2147483520, h = 5\<rparr> 0 40) st_image)
   \<and> swrender_UpdateImage st_image (Some 40)
       (Some \<lparr>x = 200, y = 0, w = 2147483520, h = 5\<rparr>) rgba_surface None None
     = Some (call (SDL_UpdateTexture (Some 700) \<lparr>x = 200, y = 0, w = 10, h = 5\<rparr> 0 40) st_image)
   \<and> swrender_UpdateImageBytes st_image (Some 40)
       (Some \<lparr>x = 200, y = 0, w = 2147483520, h = 5\<rparr>) 40 \<noteq> Some st_image
   \<and> swrender_UpdateImage st_image (Some 40)
       (Some \<lparr>x = 200, y = 0, w = 2147483520, h = 5\<rparr>) rgba_surface None None \<noteq> Some st_image"
  by (simp add: clip_defs UpdateImageBytes_clip_def Let_def swrender_UpdateImage_def
      swrender_UpdateImageBytes_def st_image_def rgba_image_def rgba_surface_def
      image_data_at_def IMAGE_DATA_def rgba_image_data_def rect_outside_def int_ops
      int_wrap_def call_def)

subsection \<open>The cached render target\<close>

lemma call_simps [simp]:
  "targets (call c s) = targets s" "contexts (call c s) = contexts s"
  "context_datas (call c s) = context_datas s" "images (call c s) = images s"
  "image_datas (call c s) = image_datas s" "renderer (call c s) = renderer s"
  "sdl_windows (call c s) = sdl_windows s" "calls (call c s) = calls s @ [c]"
  by (simp_all add: call_def)

lemma CONTEXT_DATA_call [simp]: "CONTEXT_DATA (call c s) p = CONTEXT_DATA s p"
  by (simp add: CONTEXT_DATA_def split: option.splits)

lemma context_data_at_call [simp]: "context_data_at (call c s) p = context_data_at s p"
  by (simp add: context_data_at_def)

lemma target_context_data_call [simp]:
  "target_context_data (call c s) t = target_context_data s t"
  by (simp add: target_context_data_def)

lemma context_data_at_renderer:
  "context_data_at s c = Some (cd, cdata) \<Longrightarrow>
     SDL_RENDERER_context s c = Some (sdl_renderer cdata)"
  by (cases c) (simp_all add: SDL_RENDERER_context_def context_data_at_def CONTEXT_DATA_def)

lemma target_context_data_renderer:
  "target_context_data s t = Some (cd, cdata) \<Longrightarrow>
     SDL_RENDERER_target s (Some t) = Some (sdl_renderer cdata)"
  by (auto simp: target_context_data_def SDL_RENDERER_target_def CONTEXT_target_def
      context_data_at_renderer bind_eq_Some_conv)

lemma setRenderTarget_cached:
  assumes "target_context_data s t = Some (cd, cdata)" and "render_target cdata = Some t"
  shows "setRenderTarget s (Some t) = Some (s, sdl_renderer cdata)"
  using assms by (simp add: setRenderTarget_def target_context_data_renderer)

lemma target_context_data_upd:
  assumes "target_context_data s t = Some (cd, cdata)"
  shows "target_context_data (s\<lparr>context_datas := (context_datas s)(cd \<mapsto> cdata')\<rparr>) t
           = Some (cd, cdata')"
  using assms
  by (auto simp: target_context_data_def context_data_at_def CONTEXT_DATA_def bind_eq_Some_conv
      split: option.splits)

lemma setRenderTarget_post:
  assumes "setRenderTarget s (Some t) = Some (s', r)"
  shows "(\<exists>cd cdata. target_context_data s' t = Some (cd, cdata) \<and> render_target cdata = Some t)
       \<and> (\<exists>cs. calls s' = calls s @ cs \<and> count_SDL_SetRenderTarget cs \<le> 1)"
proof -
  from assms obtain cd cdata where tcd: "target_context_data s t = Some (cd, cdata)"
    by (auto simp: setRenderTarget_def bind_eq_Some_conv)
  show ?thesis
  proof (cases "render_target cdata = Some t")
    case True
    with tcd assms have "s' = s"
      by (simp add: setRenderTarget_cached)
    with tcd True show ?thesis
      by (auto simp: count_SDL_SetRenderTarget_def)
  next
    case False
    let ?s1 = "s\<lparr>context_datas := (context_datas s)(cd \<mapsto> cdata\<lparr>render_target := Some t\<rparr>)\<rparr>"
    from assms tcd False obtain c where s': "s' = call c ?s1"
      by (auto simp: setRenderTarget_def target_context_data_renderer bind_eq_Some_conv Let_def
          split: option.splits prod.splits)
    have "target_context_data s' t = Some (cd, cdata\<lparr>render_target := Some t\<rparr>)"
      unfolding s' using target_context_data_upd [OF tcd] by simp
    moreover have "calls s' = calls s @ [c]"
      unfolding s' by simp
    moreover have "count_SDL_SetRenderTarget [c] \<le> 1"
      by (simp add: count_SDL_SetRenderTarget_def)
    ultimately show ?thesis by auto
  qed
qed

text \<open>
  C4. Binding is idempotent. When the render target cached in the data of the target's
  context is the target itself, \<^verbatim>\<open>setRenderTarget\<close> changes nothing, calls nothing and
  returns the SDL renderer of that context. Two blits in a row to one target therefore
  call \<^verbatim>\<open>SDL_SetRenderTarget\<close> at most once, and the second blit never does.
\<close>

theorem setRenderTarget_idempotent:
  "(target_context_data s t = Some (cd, cdata) \<and> render_target cdata = Some t
      \<longrightarrow> setRenderTarget s (Some t) = Some (s, sdl_renderer cdata))
   \<and> (swrender_Blit s i1 r1 (Some t) p1 = Some s1
      \<and> swrender_Blit s1 i2 r2 (Some t) p2 = Some s2
      \<longrightarrow> take (length (calls s)) (calls s2) = calls s
        \<and> count_SDL_SetRenderTarget (drop (length (calls s)) (calls s2)) \<le> 1
        \<and> count_SDL_SetRenderTarget (drop (length (calls s1)) (calls s2)) = 0)"
proof (intro conjI impI)
  assume "target_context_data s t = Some (cd, cdata) \<and> render_target cdata = Some t"
  then show "setRenderTarget s (Some t) = Some (s, sdl_renderer cdata)"
    by (simp add: setRenderTarget_cached)
next
  assume a: "swrender_Blit s i1 r1 (Some t) p1 = Some s1
           \<and> swrender_Blit s1 i2 r2 (Some t) p2 = Some s2"
  then obtain sa r c1 where sa: "setRenderTarget s (Some t) = Some (sa, r)"
    and s1: "s1 = call c1 sa" and c1: "\<not> is_SDL_SetRenderTarget c1"
    by (auto simp: swrender_Blit_def bind_eq_Some_conv Let_def)
  from setRenderTarget_post [OF sa] obtain cd' cdata' cs where
    tcd: "target_context_data sa t = Some (cd', cdata')" "render_target cdata' = Some t"
    and cs: "calls sa = calls s @ cs" "count_SDL_SetRenderTarget cs \<le> 1"
    by blast
  have "setRenderTarget s1 (Some t) = Some (s1, sdl_renderer cdata')"
    unfolding s1 using tcd by (intro setRenderTarget_cached) simp_all
  with a obtain c2 where s2: "s2 = call c2 s1" and c2: "\<not> is_SDL_SetRenderTarget c2"
    by (auto simp: swrender_Blit_def bind_eq_Some_conv Let_def)
  have l1: "calls s1 = calls s @ (cs @ [c1])"
    using s1 cs by simp
  have l2: "calls s2 = calls s @ (cs @ [c1, c2])"
    using s2 l1 by simp
  have l3: "calls s2 = calls s1 @ [c2]"
    using s2 by simp
  show "take (length (calls s)) (calls s2) = calls s"
    by (simp add: l2)
  show "count_SDL_SetRenderTarget (drop (length (calls s)) (calls s2)) \<le> 1"
    using cs c1 c2 by (simp add: l2 count_SDL_SetRenderTarget_def)
  show "count_SDL_SetRenderTarget (drop (length (calls s1)) (calls s2)) = 0"
    using c2 by (simp add: l3 count_SDL_SetRenderTarget_def)
qed

lemmas example_defs = st0_def st_window_def st_image_def st_loaded_def st_blit1_def st_blit2_def
  window_target_def window_context_def window_context_data_def rgba_image_def
  rgba_image_data_def image_target_def rgba_surface_def

lemmas accessor_defs = CONTEXT_DATA_def IMAGE_DATA_def CONTEXT_target_def CONTEXT_image_def
  context_data_at_def image_data_at_def SDL_RENDERER_context_def SDL_RENDERER_target_def
  SDL_RENDERER_image_def target_context_data_def

theorem setRenderTarget_idempotent_witness:
  "target_context_data st_image 10 = Some (30, window_context_data)
   \<and> render_target window_context_data = Some 10
   \<and> setRenderTarget st_image (Some 10) = Some (st_image, sdl_renderer window_context_data)
   \<and> swrender_Blit st_loaded (Some 40) None (Some 11) (0, 0) = Some st_blit1
   \<and> swrender_Blit st_blit1 (Some 40) None (Some 11) (3, 4) = Some st_blit2
   \<and> count_SDL_SetRenderTarget (drop (length (calls st_loaded)) (calls st_blit2)) \<le> 1
   \<and> count_SDL_SetRenderTarget (drop (length (calls st_blit1)) (calls st_blit2)) = 0"
proof -
  have a: "target_context_data st_image 10 = Some (30, window_context_data)
         \<and> render_target window_context_data = Some 10"
    by (simp add: example_defs accessor_defs)
  have b: "swrender_Blit st_loaded (Some 40) None (Some 11) (0, 0) = Some st_blit1"
    by (simp add: swrender_Blit_def setRenderTarget_def call_def rect_or_full_def Let_def
        example_defs accessor_defs)
  have c: "swrender_Blit st_blit1 (Some 40) None (Some 11) (3, 4) = Some st_blit2"
    by (simp add: swrender_Blit_def setRenderTarget_def call_def rect_or_full_def Let_def
        example_defs accessor_defs)
  from setRenderTarget_idempotent [of st_image 10 30 window_context_data]
       setRenderTarget_idempotent
         [of st_loaded 11 _ _ "Some 40" None "(0, 0)" st_blit1 "Some 40" None "(3, 4)" st_blit2]
       a b c
  show ?thesis by blast
qed

subsection \<open>Creating the window target and images\<close>

lemma pushed_errors_call:
  "pushed_errors (call c s) = pushed_errors s @ (case pushed_error c of None \<Rightarrow> [] | Some e \<Rightarrow> [e])"
  by (simp add: pushed_errors_def map_filter_def split: option.splits)

text \<open>
  C7, as amended. \<^verbatim>\<open>swrender_CreateTargetFromWindow\<close> returns null and pushes
  \<^verbatim>\<open>GPU_ERROR_UNSUPPORTED_FUNCTION\<close> when a target is passed for re-initialisation and
  when the renderer already has a current window target; when the window id resolves to
  no window it returns null and pushes \<^verbatim>\<open>GPU_ERROR_BACKEND_ERROR\<close>. In each of the three
  cases the state differs from the one before only by the pushed error: the renderer
  with its current target, the targets, the contexts and their data are unchanged.
\<close>

theorem CreateTargetFromWindow_failures:
  "(target \<noteq> None \<longrightarrow>
      swrender_CreateTargetFromWindow s wid target cr mt mc md sz
        = Some (call (GPU_PushErrorCode ''GPU_CreateTargetFromWindow''
                  GPU_ERROR_UNSUPPORTED_FUNCTION ''reinitializing target not supported'') s, None))
   \<and> (target = None \<and> current_context_target (renderer s) \<noteq> None \<longrightarrow>
      swrender_CreateTargetFromWindow s wid target cr mt mc md sz
        = Some (call (GPU_PushErrorCode ''GPU_CreateTargetFromWindow''
                  GPU_ERROR_UNSUPPORTED_FUNCTION ''multiple windows not supported'') s, None))
   \<and> (target = None \<and> current_context_target (renderer s) = None \<and> sdl_windows s wid = None \<longrightarrow>
      swrender_CreateTargetFromWindow s wid target cr mt mc md sz
        = Some (call (GPU_PushErrorCode ''GPU_CreateTargetFromWindow''
                  GPU_ERROR_BACKEND_ERROR ''Failed to acquire the window from the given ID.'') s, None))
   \<and> renderer (call c s) = renderer s \<and> targets (call c s) = targets s
   \<and> contexts (call c s) = contexts s \<and> context_datas (call c s) = context_datas s
   \<and> images (call c s) = images s \<and> image_datas (call c s) = image_datas s"
  by (simp add: swrender_CreateTargetFromWindow_def)


theorem CreateTargetFromWindow_failures_witness:
  "swrender_CreateTargetFromWindow st_window 1 (Some 10) (Some 601) (Some 12) (Some 21) (Some 31) (640, 480)
     = Some (call (GPU_PushErrorCode ''GPU_CreateTargetFromWindow''
               GPU_ERROR_UNSUPPORTED_FUNCTION ''reinitializing target not supported'') st_window, None)
   \<and> current_context_target (renderer st_window) = Some 10
   \<and> swrender_CreateTargetFromWindow st_window 1 None (Some 601) (Some 12) (Some 21) (Some 31) (640, 480)
     = Some (call (GPU_PushErrorCode ''GPU_CreateTargetFromWindow''
               GPU_ERROR_UNSUPPORTED_FUNCTION ''multiple windows not supported'') st_window, None)
   \<and> current_context_target (renderer st0) = None \<and> sdl_windows st0 2 = None
   \<and> swrender_CreateTargetFromWindow st0 2 None (Some 600) (Some 10) (Some 20) (Some 30) (640, 480)
     = Some (call (GPU_PushErrorCode ''GPU_CreateTargetFromWindow''
               GPU_ERROR_BACKEND_ERROR ''Failed to acquire the window from the given ID.'') st0, None)"
  using CreateTargetFromWindow_failures [of "Some 10" st_window 1 "Some 601" "Some 12" "Some 21" "Some 31" "(640, 480)"]
    CreateTargetFromWindow_failures [of None st_window 1 "Some 601" "Some 12" "Some 21" "Some 31" "(640, 480)"]
    CreateTargetFromWindow_failures [of None st0 2 "Some 600" "Some 10" "Some 20" "Some 30" "(640, 480)"]
  by (simp add: st0_def st_window_def swrender_CreateRenderer_def)


text \<open>
  C7, as stated, fails: with no target passed and no window target yet, an id that
  resolves to no window makes the function push \<^verbatim>\<open>GPU_ERROR_BACKEND_ERROR\<close>, which is
  not \<^verbatim>\<open>GPU_ERROR_UNSUPPORTED_FUNCTION\<close>.
\<close>

theorem CreateTargetFromWindow_window_error_kind:
  "current_context_target (renderer st0) = None \<and> sdl_windows st0 2 = None
   \<and> swrender_CreateTargetFromWindow st0 2 None (Some 600) (Some 10) (Some 20) (Some 30) (640, 480)
     = Some (call (GPU_PushErrorCode ''GPU_CreateTargetFromWindow''
               GPU_ERROR_BACKEND_ERROR ''Failed to acquire the window from the given ID.'') st0, None)
   \<and> pushed_errors (call (GPU_PushErrorCode ''GPU_CreateTargetFromWindow''
               GPU_ERROR_BACKEND_ERROR ''Failed to acquire the window from the given ID.'') st0)
     = [GPU_ERROR_BACKEND_ERROR]
   \<and> GPU_ERROR_BACKEND_ERROR \<noteq> GPU_ERROR_UNSUPPORTED_FUNCTION"
  by (simp add: swrender_CreateTargetFromWindow_def st0_def swrender_CreateRenderer_def
      pushed_errors_def call_def map_filter_def)


text \<open>
  C8. Without a current context target \<^verbatim>\<open>swrender_CreateImage\<close> pushes
  \<^verbatim>\<open>GPU_ERROR_USER_ERROR\<close> and returns null. With one, and with the allocations and the
  texture granted, the formats RGB and RGBA give an image with the renderer's default
  anchor, which \<^verbatim>\<open>swrender_CreateRenderer\<close> sets to (0.5, 0.5), the normal blend mode,
  the linear filter and reference count 1, and no error is pushed; every other format
  tag pushes \<^verbatim>\<open>GPU_ERROR_BACKEND_ERROR\<close> and returns null.
\<close>

theorem CreateImage_results:
  "(current_context_target (renderer s) = None \<longrightarrow>
      swrender_CreateImage s iw ih fmt mi md ct
        = Some (call (GPU_PushErrorCode ''GPU_CreateImage'' GPU_ERROR_USER_ERROR
                  ''No current context'') s, None))
   \<and> (current_context_target (renderer s) = Some cct \<and> targets s cct = Some cctg
       \<and> SDL_RENDERER_context s (tgt_context cctg) = Some sdlr
       \<and> (fmt = GPU_FORMAT_RGB \<or> fmt = GPU_FORMAT_RGBA)
       \<and> default_image_anchor_x (renderer s) = default_image_anchor_x swrender_CreateRenderer
       \<and> default_image_anchor_y (renderer s) = default_image_anchor_y swrender_CreateRenderer
      \<longrightarrow> (\<exists>s' img idata.
            swrender_CreateImage s iw ih fmt (Some i) (Some idt) (Some tx) = Some (s', Some i)
            \<and> images s' i = Some img \<and> image_data_at s' (Some i) = Some (idt, idata)
            \<and> anchor_x img = 0.5 \<and> anchor_y img = 0.5
            \<and> use_blending img \<and> blend_mode img = GPU_GetBlendModeFromPreset GPU_BLEND_NORMAL
            \<and> filter_mode img = GPU_FILTER_LINEAR
            \<and> img_refcount img = 1 \<and> img_format img = fmt \<and> img_w img = iw \<and> img_h img = ih
            \<and> idata_refcount idata = 1 \<and> tex idata = Some tx
            \<and> pushed_errors s' = pushed_errors s))
   \<and> (current_context_target (renderer s) = Some cct \<and> targets s cct = Some cctg \<longrightarrow>
      swrender_CreateImage s iw ih (GPU_FORMAT_other n) (Some i) (Some idt) ct
        = Some (call (GPU_PushErrorCode ''GPU_CreateImage'' GPU_ERROR_BACKEND_ERROR
                  ''Unsupported format'') s, None))"
  by (auto simp: swrender_CreateImage_def swrender_CreateRenderer_def image_data_at_def
      IMAGE_DATA_def pushed_errors_def call_def map_filter_def)


theorem CreateImage_results_witness:
  "current_context_target (renderer st0) = None
   \<and> swrender_CreateImage st0 10 10 GPU_FORMAT_RGBA (Some 40) (Some 50) (Some 700)
     = Some (call (GPU_PushErrorCode ''GPU_CreateImage'' GPU_ERROR_USER_ERROR
               ''No current context'') st0, None)
   \<and> current_context_target (renderer st_window) = Some 10
   \<and> targets st_window 10 = Some window_target
   \<and> SDL_RENDERER_context st_window (tgt_context window_target) = Some (Some 600)
   \<and> default_image_anchor_x (renderer st_window) = default_image_anchor_x swrender_CreateRenderer
   \<and> default_image_anchor_y (renderer st_window) = default_image_anchor_y swrender_CreateRenderer
   \<and> (\<exists>s' img idata.
         swrender_CreateImage st_window 10 10 GPU_FORMAT_RGBA (Some 40) (Some 50) (Some 700)
           = Some (s', Some 40)
       \<and> images s' 40 = Some img \<and> image_data_at s' (Some 40) = Some (50, idata)
       \<and> anchor_x img = 0.5 \<and> anchor_y img = 0.5
       \<and> use_blending img \<and> blend_mode img = GPU_GetBlendModeFromPreset GPU_BLEND_NORMAL
       \<and> filter_mode img = GPU_FILTER_LINEAR
       \<and> img_refcount img = 1 \<and> img_format img = GPU_FORMAT_RGBA
       \<and> idata_refcount idata = 1 \<and> tex idata = Some 700
       \<and> pushed_errors s' = pushed_errors st_window)
   \<and> swrender_CreateImage st_window 10 10 (GPU_FORMAT_other 5) (Some 40) (Some 50) (Some 700)
     = Some (call (GPU_PushErrorCode ''GPU_CreateImage'' GPU_ERROR_BACKEND_ERROR
               ''Unsupported format'') st_window, None)"
proof -
  have a: "current_context_target (renderer st0) = None"
    "current_context_target (renderer st_window) = Some 10"
    "targets st_window 10 = Some window_target"
    "SDL_RENDERER_context st_window (tgt_context window_target) = Some (Some 600)"
    "default_image_anchor_x (renderer st_window) = default_image_anchor_x swrender_CreateRenderer"
    "default_image_anchor_y (renderer st_window) = default_image_anchor_y swrender_CreateRenderer"
    by (simp_all add: example_defs accessor_defs swrender_CreateRenderer_def)
  from CreateImage_results [of st0 10 10 GPU_FORMAT_RGBA "Some 40" "Some 50" "Some 700"]
    CreateImage_results
      [of st_window 10 10 GPU_FORMAT_RGBA _ _ "Some 700" 10 window_target "Some 600" 40 50 700 5]
    a
  show ?thesis by simp blast
qed


text \<open>
  C10, at its failing inputs. When \<^verbatim>\<open>SDL_malloc\<close> returns null,
  \<^verbatim>\<open>swrender_CreateAliasImage\<close> writes through the null pointer, for every image that
  is not null: its behaviour is undefined, it does not return null. When one of the three allocations of
  \<^verbatim>\<open>swrender_CreateTargetFromWindow\<close> fails, null is returned and the SDL renderer
  created just before is not destroyed. \<^verbatim>\<open>swrender_CreateImage\<close> does what the claim
  says: it returns null and leaves the state as it was.
\<close>

theorem creation_allocation_failure:
  "swrender_CreateAliasImage s (Some i) None = None
   \<and> swrender_CreateAliasImage st_image (Some 40) None = None
   \<and> swrender_CreateTargetFromWindow st0 1 None (Some 600) None (Some 20) (Some 30) (640, 480)
     = Some (call (SDL_CreateRenderer 500 (Some 600)) st0, None)
   \<and> swrender_CreateImage st_window 10 10 GPU_FORMAT_RGBA None (Some 50) (Some 700)
     = Some (st_window, None)"
  by (simp add: swrender_CreateAliasImage_def swrender_CreateTargetFromWindow_def
      swrender_CreateImage_def st0_def st_window_def swrender_CreateRenderer_def window_target_def)


subsection \<open>Releasing targets\<close>

lemma context_data_at_frame:
  "contexts s' = contexts s \<Longrightarrow> context_datas s' = context_datas s \<Longrightarrow>
     context_data_at s' c = context_data_at s c"
  by (simp add: context_data_at_def CONTEXT_DATA_def split: option.splits)

lemma target_context_data_eq:
  assumes "targets s t = Some tg" "tgt_context_target tg = Some ct" "targets s ct = Some ctg"
  shows "target_context_data s t = context_data_at s (tgt_context ctg)"
  using assms by (simp add: target_context_data_def)

lemma context_data_at_some_context:
  "context_data_at s c = Some (cd, cdata) \<Longrightarrow> c \<noteq> None"
  by (cases c) (auto simp: context_data_at_def CONTEXT_DATA_def)

lemma context_data_at_lookup:
  "context_data_at s c = Some (cd, cdata) \<Longrightarrow> context_datas s cd = Some cdata"
  by (auto simp: context_data_at_def bind_eq_Some_conv)

lemma context_data_at_upd:
  assumes "context_data_at s c = Some (cd, cdata)"
  shows "context_data_at (s\<lparr>context_datas := (context_datas s)(cd \<mapsto> cdata')\<rparr>) c = Some (cd, cdata')"
  using assms
  by (auto simp: context_data_at_def CONTEXT_DATA_def bind_eq_Some_conv split: option.splits)

text \<open>Rebinding to a window target whose cache holds another target.\<close>

lemma setRenderTarget_window:
  assumes wtg: "targets s wt = Some wtg" "tgt_context_target wtg = Some wt" "tgt_image wtg = None"
    and cd: "context_data_at s (tgt_context wtg) = Some (cd, cdata)"
    and miss: "render_target cdata \<noteq> Some wt"
  shows "setRenderTarget s (Some wt) =
           Some (call (SDL_SetRenderTarget (sdl_renderer cdata) None)
                   (s\<lparr>context_datas := (context_datas s)(cd \<mapsto> cdata\<lparr>render_target := Some wt\<rparr>)\<rparr>),
                 sdl_renderer cdata)"
proof -
  have tcd: "target_context_data s wt = Some (cd, cdata)"
    using wtg cd by (simp add: target_context_data_eq)
  show ?thesis
    using tcd miss wtg by (simp add: setRenderTarget_def target_context_data_renderer Let_def)
qed

lemma FreeTarget_detach_frame:
  assumes "tgt_is_alias tg \<or> (case tgt_image tg of None \<Rightarrow> True | Some i \<Rightarrow> i \<in> dom (images s))"
  shows "\<exists>s2. FreeTarget_detach s tg = Some s2 \<and> targets s2 = targets s
           \<and> contexts s2 = contexts s \<and> context_datas s2 = context_datas s
           \<and> image_datas s2 = image_datas s \<and> renderer s2 = renderer s \<and> calls s2 = calls s
           \<and> (\<forall>j. images s2 j =
                 (if \<not> tgt_is_alias tg \<and> tgt_image tg = Some j
                  then map_option (\<lambda>im. im\<lparr>img_target := None\<rparr>) (images s j)
                  else images s j))"
  using assms
  by (cases "tgt_image tg"; cases "tgt_is_alias tg") (auto simp: FreeTarget_detach_def)

lemma FreeTarget_released:
  assumes "targets s t = Some tg" "tgt_refcount tg \<le> 1"
    and "FreeTarget_detach (s\<lparr>targets := (targets s)(t \<mapsto> tg\<lparr>tgt_refcount := tgt_refcount tg - 1\<rparr>)\<rparr>)
           (tg\<lparr>tgt_refcount := tgt_refcount tg - 1\<rparr>) = Some s2"
    and "FreeTarget_context s2 t (tg\<lparr>tgt_refcount := tgt_refcount tg - 1\<rparr>) = Some s3"
  shows "swrender_FreeTarget s (Some t) = Some (s3\<lparr>targets := (targets s3)(t := None)\<rparr>)"
  using assms by (simp add: swrender_FreeTarget_def Let_def)

lemma FreeTarget_kept:
  assumes "targets s t = Some tg" "tgt_refcount tg > 1"
  shows "swrender_FreeTarget s (Some t)
           = Some (s\<lparr>targets := (targets s)(t \<mapsto> tg\<lparr>tgt_refcount := tgt_refcount tg - 1\<rparr>)\<rparr>)"
  using assms by (simp add: swrender_FreeTarget_def Let_def)

lemma context_data_at_SomeD:
  assumes "context_data_at s cp = Some (cd, cdata)"
  shows "\<exists>c ctx. cp = Some c \<and> contexts s c = Some ctx \<and> ctx_data ctx = Some cd
           \<and> context_datas s cd = Some cdata"
  using assms
  by (cases cp) (auto simp: context_data_at_def CONTEXT_DATA_def bind_eq_Some_conv)

lemma FreeTarget_window:
  assumes wtg: "targets s wt = Some wtg" "tgt_image wtg = None" "tgt_refcount wtg = 1"
    and cd: "context_data_at s (tgt_context wtg) = Some (cd, cdata)"
  shows "\<exists>s' c. swrender_FreeTarget s (Some wt) = Some s' \<and> tgt_context wtg = Some c
           \<and> targets s' wt = None \<and> contexts s' c = None \<and> context_datas s' cd = None
           \<and> calls s' = calls s @ [SDL_DestroyRenderer (sdl_renderer cdata)]
           \<and> current_context_target (renderer s') \<noteq> Some wt"
proof -
  from context_data_at_SomeD [OF cd] obtain c ctx where
    c: "tgt_context wtg = Some c" "contexts s c = Some ctx" "ctx_data ctx = Some cd"
      "context_datas s cd = Some cdata"
    by blast
  let ?tg = "wtg\<lparr>tgt_refcount := tgt_refcount wtg - 1\<rparr>"
  let ?s1 = "s\<lparr>targets := (targets s)(wt \<mapsto> ?tg)\<rparr>"
  have d: "FreeTarget_detach ?s1 ?tg = Some ?s1"
    using wtg by (simp add: FreeTarget_detach_def)
  have r: "SDL_RENDERER_context ?s1 (Some c) = Some (sdl_renderer cdata)"
    using c by (simp add: SDL_RENDERER_context_def context_data_at_def CONTEXT_DATA_def)
  let ?sa = "call (SDL_DestroyRenderer (sdl_renderer cdata)) ?s1"
  let ?sb = "?sa\<lparr>context_datas := (context_datas ?sa)(cd := None)\<rparr>"
  let ?sc = "?sb\<lparr>contexts := (contexts ?sb)(c := None),
                  targets := (targets ?sb)(wt \<mapsto> ?tg\<lparr>tgt_context := None\<rparr>)\<rparr>"
  let ?s3 = "if current_context_target (renderer ?sc) = Some wt
             then ?sc\<lparr>renderer := (renderer ?sc)\<lparr>current_context_target := None\<rparr>\<rparr>
             else ?sc"
  have f: "free_context_data ?sa (ctx_data ctx) = Some ?sb"
    using c by (auto simp: free_context_data_def)
  have k: "FreeTarget_context ?s1 wt ?tg = Some ?s3"
    using c r f by (simp add: FreeTarget_context_def Let_def)
  from FreeTarget_released [OF wtg(1) _ d k] wtg(3)
  have "swrender_FreeTarget s (Some wt) = Some (?s3\<lparr>targets := (targets ?s3)(wt := None)\<rparr>)"
    by simp
  then show ?thesis
    using c by auto
qed


lemma FreeTarget_offscreen:
  assumes tg: "targets s t = Some tg" "tgt_context tg = None" "tgt_context_target tg = Some wt"
    and img: "tgt_is_alias tg \<or> (case tgt_image tg of None \<Rightarrow> True | Some i \<Rightarrow> i \<in> dom (images s))"
    and wtg: "targets s wt = Some wtg" "tgt_context_target wtg = Some wt" "tgt_image wtg = None"
    and cd: "context_data_at s (tgt_context wtg) = Some (cd, cdata)"
    and rc: "tgt_refcount tg = 1"
  shows "\<exists>s' cdata'. swrender_FreeTarget s (Some t) = Some s'
             \<and> targets s' t = None \<and> targets s' wt = Some wtg
             \<and> context_data_at s' (tgt_context wtg) = Some (cd, cdata')
             \<and> render_target cdata' \<noteq> Some t
             \<and> (if render_target cdata = Some t
                then render_target cdata' = Some wt
                   \<and> calls s' = calls s @ [SDL_SetRenderTarget (sdl_renderer cdata) None]
                else cdata' = cdata \<and> calls s' = calls s)
             \<and> (\<forall>j. images s' j =
                   (if \<not> tgt_is_alias tg \<and> tgt_image tg = Some j
                    then map_option (\<lambda>im. im\<lparr>img_target := None\<rparr>) (images s j)
                    else images s j))"
proof -
  from cd tg wtg have neq: "wt \<noteq> t"
    by (auto dest: context_data_at_some_context)
  let ?tg = "tg\<lparr>tgt_refcount := tgt_refcount tg - 1\<rparr>"
  let ?s1 = "s\<lparr>targets := (targets s)(t \<mapsto> ?tg)\<rparr>"
  have "tgt_is_alias ?tg \<or> (case tgt_image ?tg of None \<Rightarrow> True | Some i \<Rightarrow> i \<in> dom (images ?s1))"
    using img by (cases "tgt_image tg") simp_all
  from FreeTarget_detach_frame [OF this]
  obtain s2 where s2: "FreeTarget_detach ?s1 ?tg = Some s2"
    and s2_frame: "targets s2 = targets ?s1" "contexts s2 = contexts s"
      "context_datas s2 = context_datas s" "calls s2 = calls s"
    and s2_images: "\<forall>j. images s2 j =
                 (if \<not> tgt_is_alias tg \<and> tgt_image tg = Some j
                  then map_option (\<lambda>im. im\<lparr>img_target := None\<rparr>) (images s j)
                  else images s j)"
    by auto
  have cd2: "context_data_at s2 (tgt_context wtg) = Some (cd, cdata)"
    using cd s2_frame context_data_at_frame [of s2 s] by simp
  have t2: "targets s2 t = Some ?tg" "targets s2 wt = Some wtg"
    using s2_frame wtg neq by simp_all
  have tcd2: "target_context_data s2 t = Some (cd, cdata)"
    using t2 tg cd2 by (simp add: target_context_data_eq)
  show ?thesis
  proof (cases "render_target cdata = Some t")
    case False
    have "FreeTarget_context s2 t ?tg = Some s2"
      using tg tcd2 False by (simp add: FreeTarget_context_def)
    from FreeTarget_released [OF tg(1) _ s2 this] rc
    have "swrender_FreeTarget s (Some t) = Some (s2\<lparr>targets := (targets s2)(t := None)\<rparr>)"
      by simp
    moreover have "context_data_at (s2\<lparr>targets := (targets s2)(t := None)\<rparr>) (tgt_context wtg) = Some (cd, cdata)"
      using cd2 context_data_at_frame [of "s2\<lparr>targets := (targets s2)(t := None)\<rparr>" s2] by simp
    ultimately show ?thesis
      using False t2 neq s2_frame s2_images by auto
  next
    case True
    then have miss: "render_target cdata \<noteq> Some wt" using neq by simp
    let ?sa = "s2\<lparr>context_datas := (context_datas s2)(cd \<mapsto> cdata\<lparr>render_target := Some wt\<rparr>)\<rparr>"
    let ?s3 = "call (SDL_SetRenderTarget (sdl_renderer cdata) None) ?sa"
    have rt: "setRenderTarget s2 (Some wt) = Some (?s3, sdl_renderer cdata)"
      using t2 wtg cd2 miss by (intro setRenderTarget_window) simp_all
    have "FreeTarget_context s2 t ?tg = Some ?s3"
      using tg tcd2 True rt by (simp add: FreeTarget_context_def)
    from FreeTarget_released [OF tg(1) _ s2 this] rc
    have "swrender_FreeTarget s (Some t) = Some (?s3\<lparr>targets := (targets ?s3)(t := None)\<rparr>)"
      by simp
    moreover have "context_data_at (?s3\<lparr>targets := (targets ?s3)(t := None)\<rparr>) (tgt_context wtg)
        = Some (cd, cdata\<lparr>render_target := Some wt\<rparr>)"
      using context_data_at_upd [OF cd2, of "cdata\<lparr>render_target := Some wt\<rparr>"]
        context_data_at_frame [of "?s3\<lparr>targets := (targets ?s3)(t := None)\<rparr>" ?sa]
      by simp
    ultimately show ?thesis
      using True t2 neq s2_frame s2_images by auto
  qed
qed

text \<open>
  C9. Let an offscreen target (its \<open>context\<close> is null) hang off a window target. When
  \<^verbatim>\<open>swrender_FreeTarget\<close> brings its reference count from 1 to 0, the target is released
  and the render target cached in the owning context's data is not the released target:
  if the cache held it, the cache now holds the window target and
  \<^verbatim>\<open>SDL_SetRenderTarget(sdlr, NULL)\<close> was issued; otherwise the cache and the calls are
  unchanged. With a reference count above 1 only the count changes and nothing is
  released. Releasing the window target itself releases the context and its data, the
  cache with them; on the null target the function does nothing.
\<close>

theorem FreeTarget_rebinds_cache:
  assumes tg: "targets s t = Some tg" "tgt_context tg = None" "tgt_context_target tg = Some wt"
    and img: "tgt_is_alias tg \<or> (case tgt_image tg of None \<Rightarrow> True | Some i \<Rightarrow> i \<in> dom (images s))"
    and wtg: "targets s wt = Some wtg" "tgt_context_target wtg = Some wt" "tgt_image wtg = None"
    and cd: "context_data_at s (tgt_context wtg) = Some (cd, cdata)"
  shows "(tgt_refcount tg = 1 \<longrightarrow>
          (\<exists>s' cdata'. swrender_FreeTarget s (Some t) = Some s'
             \<and> targets s' t = None \<and> targets s' wt = Some wtg
             \<and> context_data_at s' (tgt_context wtg) = Some (cd, cdata')
             \<and> render_target cdata' \<noteq> Some t
             \<and> (if render_target cdata = Some t
                then render_target cdata' = Some wt
                   \<and> calls s' = calls s @ [SDL_SetRenderTarget (sdl_renderer cdata) None]
                else cdata' = cdata \<and> calls s' = calls s)))
       \<and> (tgt_refcount tg > 1 \<longrightarrow>
            swrender_FreeTarget s (Some t)
              = Some (s\<lparr>targets := (targets s)(t \<mapsto> tg\<lparr>tgt_refcount := tgt_refcount tg - 1\<rparr>)\<rparr>))
       \<and> (tgt_refcount wtg = 1 \<longrightarrow>
          (\<exists>s' c. swrender_FreeTarget s (Some wt) = Some s' \<and> tgt_context wtg = Some c
             \<and> targets s' wt = None \<and> contexts s' c = None \<and> context_datas s' cd = None))
       \<and> swrender_FreeTarget s None = Some s"
proof -
  have "swrender_FreeTarget s None = Some s"
    by (simp add: swrender_FreeTarget_def)
  with FreeTarget_offscreen [OF assms] FreeTarget_kept [OF tg(1)]
    FreeTarget_window [OF wtg(1,3) _ cd]
  show ?thesis by blast
qed

theorem FreeTarget_rebinds_cache_witness:
  "targets st_blit1 11 = Some image_target \<and> tgt_context image_target = None
   \<and> tgt_context_target image_target = Some 10
   \<and> tgt_image image_target = Some 40 \<and> 40 \<in> dom (images st_blit1)
   \<and> targets st_blit1 10 = Some window_target
   \<and> tgt_context_target window_target = Some 10 \<and> tgt_image window_target = None
   \<and> context_data_at st_blit1 (tgt_context window_target)
       = Some (30, window_context_data\<lparr>render_target := Some 11\<rparr>)
   \<and> tgt_refcount image_target = 1
   \<and> (\<exists>s' cdata'. swrender_FreeTarget st_blit1 (Some 11) = Some s'
        \<and> targets s' 11 = None \<and> targets s' 10 = Some window_target
        \<and> context_data_at s' (Some 20) = Some (30, cdata')
        \<and> render_target cdata' = Some 10
        \<and> calls s' = calls st_blit1 @ [SDL_SetRenderTarget (Some 600) None])"
proof -
  have a: "targets st_blit1 11 = Some image_target" "tgt_context image_target = None"
    "tgt_context_target image_target = Some 10"
    "tgt_is_alias image_target
     \<or> (case tgt_image image_target of None \<Rightarrow> True | Some i \<Rightarrow> i \<in> dom (images st_blit1))"
    "targets st_blit1 10 = Some window_target" "tgt_context_target window_target = Some 10"
    "tgt_image window_target = None"
    "context_data_at st_blit1 (tgt_context window_target)
       = Some (30, window_context_data\<lparr>render_target := Some 11\<rparr>)"
    "tgt_refcount image_target = 1" "tgt_context window_target = Some 20"
    "tgt_image image_target = Some 40" "40 \<in> dom (images st_blit1)"
    by (simp_all add: example_defs accessor_defs)
  from FreeTarget_rebinds_cache [OF a(1-8)] a show ?thesis
    by (auto simp: window_context_data_def)
qed








subsection \<open>Releasing images\<close>

lemma setRenderTarget_image_frame:
  assumes "setRenderTarget s tp = Some (s', r)"
  shows "images s' = images s \<and> image_datas s' = image_datas s
       \<and> (\<exists>cs. calls s' = calls s @ cs \<and> filter is_SDL_DestroyTexture cs = [])"
  using assms
  by (auto simp: setRenderTarget_def bind_eq_Some_conv Let_def
      split: if_splits option.splits prod.splits)

lemma free_context_data_frame:
  assumes "free_context_data s p = Some s'"
  shows "images s' = images s \<and> image_datas s' = image_datas s \<and> calls s' = calls s"
  using assms by (auto simp: free_context_data_def split: option.splits if_splits)

lemma FreeTarget_context_image_frame:
  assumes "FreeTarget_context s t tg = Some s'"
  shows "images s' = images s \<and> image_datas s' = image_datas s
       \<and> (\<exists>cs. calls s' = calls s @ cs \<and> filter is_SDL_DestroyTexture cs = [])"
proof (cases "tgt_context tg")
  case None
  with assms obtain cdata :: SW_CONTEXT_DATA where
    step: "(if render_target cdata = Some t
            then map_option fst (setRenderTarget s (tgt_context_target tg))
            else Some s) = Some s'"
    by (auto simp: FreeTarget_context_def bind_eq_Some_conv)
  show ?thesis
  proof (cases "render_target cdata = Some t")
    case True
    with step obtain r where "setRenderTarget s (tgt_context_target tg) = Some (s', r)"
      by auto
    then show ?thesis by (rule setRenderTarget_image_frame)
  next
    case False
    with step show ?thesis by simp
  qed
next
  case (Some c)
  with assms have "\<exists>sdlr (ctx :: GPU_Context) sb.
      free_context_data (call (SDL_DestroyRenderer sdlr) s) (ctx_data ctx) = Some sb
      \<and> images s' = images sb \<and> image_datas s' = image_datas sb \<and> calls s' = calls sb"
    by (fastforce simp: FreeTarget_context_def bind_eq_Some_conv Let_def split: if_splits)
  then obtain sdlr and ctx :: GPU_Context and sb where
    sb: "free_context_data (call (SDL_DestroyRenderer sdlr) s) (ctx_data ctx) = Some sb"
    and s': "images s' = images sb" "image_datas s' = image_datas sb" "calls s' = calls sb"
    by blast
  from free_context_data_frame [OF sb] s' show ?thesis
    by simp
qed

lemma FreeTarget_detach_image_frame:
  assumes "FreeTarget_detach s tg = Some s'"
  shows "image_datas s' = image_datas s \<and> calls s' = calls s
       \<and> (\<forall>j. map_option (\<lambda>im. im\<lparr>img_target := None\<rparr>) (images s' j)
              = map_option (\<lambda>im. im\<lparr>img_target := None\<rparr>) (images s j))"
  using assms
  by (auto simp: FreeTarget_detach_def bind_eq_Some_conv split: if_splits)

lemma FreeTarget_image_frame:
  assumes "swrender_FreeTarget s tp = Some s'"
  shows "image_datas s' = image_datas s
       \<and> (\<forall>j. map_option (\<lambda>im. im\<lparr>img_target := None\<rparr>) (images s' j)
              = map_option (\<lambda>im. im\<lparr>img_target := None\<rparr>) (images s j))
       \<and> (\<exists>cs. calls s' = calls s @ cs \<and> filter is_SDL_DestroyTexture cs = [])"
proof (cases tp)
  case None
  with assms show ?thesis by (simp add: swrender_FreeTarget_def)
next
  case (Some t)
  with assms obtain tg where tg: "targets s t = Some tg"
    by (auto simp: swrender_FreeTarget_def bind_eq_Some_conv)
  let ?tg = "tg\<lparr>tgt_refcount := tgt_refcount tg - 1\<rparr>"
  let ?s1 = "s\<lparr>targets := (targets s)(t \<mapsto> ?tg)\<rparr>"
  show ?thesis
  proof (cases "tgt_refcount tg > 1")
    case True
    with assms Some tg have "s' = ?s1"
      by (simp add: swrender_FreeTarget_def Let_def)
    then show ?thesis by simp
  next
    case False
    with assms Some tg obtain s2 s3 where s2: "FreeTarget_detach ?s1 ?tg = Some s2"
      and s3: "FreeTarget_context s2 t ?tg = Some s3"
      and s': "s' = s3\<lparr>targets := (targets s3)(t := None)\<rparr>"
      by (auto simp: swrender_FreeTarget_def Let_def bind_eq_Some_conv)
    from FreeTarget_detach_image_frame [OF s2] FreeTarget_context_image_frame [OF s3] s'
    show ?thesis by auto
  qed
qed

lemma up_to_target_fields:
  assumes "map_option (\<lambda>im. im\<lparr>img_target := None\<rparr>) a = map_option (\<lambda>im. im\<lparr>img_target := None\<rparr>) b"
  shows "map_option img_data a = map_option img_data b
       \<and> map_option img_refcount a = map_option img_refcount b \<and> (a = None) = (b = None)"
proof (cases a; cases b)
  fix x y assume ab: "a = Some x" "b = Some y"
  with assms have e: "x\<lparr>img_target := None\<rparr> = y\<lparr>img_target := None\<rparr>" by simp
  have "img_data x = img_data (x\<lparr>img_target := None\<rparr>)" by simp
  also have "\<dots> = img_data y" unfolding e by simp
  finally have d: "img_data x = img_data y" .
  have "img_refcount x = img_refcount (x\<lparr>img_target := None\<rparr>)" by simp
  also have "\<dots> = img_refcount y" unfolding e by simp
  finally have r: "img_refcount x = img_refcount y" .
  from ab d r show ?thesis by simp
qed (use assms in auto)

text \<open>The effect of releasing an image whose own reference count is 1.\<close>

lemma FreeImage_last_reference:
  assumes img: "images s i = Some img" "img_refcount img = 1" "img_data img = Some idt"
    and idata: "image_datas s idt = Some idata"
    and run: "swrender_FreeImage s (Some i) = Some s'"
  shows "images s' i = None
       \<and> (\<forall>j. j \<noteq> i \<longrightarrow> map_option (\<lambda>im. im\<lparr>img_target := None\<rparr>) (images s' j)
                         = map_option (\<lambda>im. im\<lparr>img_target := None\<rparr>) (images s j))
       \<and> take (length (calls s)) (calls s') = calls s
       \<and> (if idata_refcount idata \<le> 1
          then image_datas s' = (image_datas s)(idt := None)
             \<and> filter is_SDL_DestroyTexture (drop (length (calls s)) (calls s'))
                 = [SDL_DestroyTexture (tex idata)]
          else image_datas s' = (image_datas s)(idt \<mapsto> idata\<lparr>idata_refcount := idata_refcount idata - 1\<rparr>)
             \<and> filter is_SDL_DestroyTexture (drop (length (calls s)) (calls s')) = [])"
proof -
  let ?img = "img\<lparr>img_refcount := img_refcount img - 1\<rparr>"
  let ?s1 = "s\<lparr>images := (images s)(i \<mapsto> ?img)\<rparr>"
  from run img obtain s2 s3 where s2: "FreeImage_target ?s1 i ?img = Some s2"
    and s3: "FreeImage_data s2 i = Some s3"
    and s': "s' = s3\<lparr>images := (images s3)(i := None)\<rparr>"
    by (auto simp: swrender_FreeImage_def Let_def bind_eq_Some_conv)
  let ?sa = "?s1\<lparr>images := (images ?s1)(i \<mapsto> ?img\<lparr>img_target := None\<rparr>)\<rparr>"
  have fr: "image_datas s2 = image_datas s
       \<and> (\<forall>j. map_option (\<lambda>im. im\<lparr>img_target := None\<rparr>) (images s2 j)
              = map_option (\<lambda>im. im\<lparr>img_target := None\<rparr>) (images ?s1 j))
       \<and> (\<exists>cs. calls s2 = calls s @ cs \<and> filter is_SDL_DestroyTexture cs = [])"
  proof (cases "img_target img")
    case None
    with s2 have "s2 = ?s1" by (simp add: FreeImage_target_def)
    then show ?thesis by simp
  next
    case (Some t)
    with s2 have "swrender_FreeTarget ?sa (Some t) = Some s2"
      by (simp add: FreeImage_target_def)
    from FreeTarget_image_frame [OF this] show ?thesis by auto
  qed
  then obtain cs where ids2: "image_datas s2 = image_datas s"
    and im2: "\<And>j. map_option (\<lambda>im. im\<lparr>img_target := None\<rparr>) (images s2 j)
              = map_option (\<lambda>im. im\<lparr>img_target := None\<rparr>) (images ?s1 j)"
    and cs: "calls s2 = calls s @ cs" "filter is_SDL_DestroyTexture cs = []"
    by blast
  from up_to_target_fields [OF im2 [of i]] img
  obtain im where im: "images s2 i = Some im" "img_data im = Some idt"
    by (cases "images s2 i") auto
  have ida: "image_data_at s2 (Some i) = Some (idt, idata)"
    using im ids2 idata by (simp add: image_data_at_def IMAGE_DATA_def)
  have other: "\<And>j. j \<noteq> i \<Longrightarrow> map_option (\<lambda>im. im\<lparr>img_target := None\<rparr>) (images s' j)
                         = map_option (\<lambda>im. im\<lparr>img_target := None\<rparr>) (images s j)"
  proof -
    fix j assume "j \<noteq> i"
    moreover from s3 have "images s3 = images s2"
      by (auto simp: FreeImage_data_def bind_eq_Some_conv Let_def split: if_splits)
    ultimately show "map_option (\<lambda>im. im\<lparr>img_target := None\<rparr>) (images s' j)
                         = map_option (\<lambda>im. im\<lparr>img_target := None\<rparr>) (images s j)"
      using im2 [of j] s' by simp
  qed
  show ?thesis
  proof (cases "idata_refcount idata \<le> 1")
    case True
    with s3 ida have "s3 = (call (SDL_DestroyTexture (tex idata)) s2)
                  \<lparr>image_datas := (image_datas s2)(idt := None)\<rparr>"
      by (simp add: FreeImage_data_def Let_def)
    with s' ids2 cs True other show ?thesis by simp
  next
    case False
    with s3 ida have "s3 = s2\<lparr>image_datas := (image_datas s2)
                        (idt \<mapsto> idata\<lparr>idata_refcount := idata_refcount idata - 1\<rparr>)\<rparr>"
      by (simp add: FreeImage_data_def Let_def)
    with s' ids2 cs False other show ?thesis by simp
  qed
qed

lemma FreeImage_without_target:
  assumes "images s i = Some img" "img_refcount img = 1" "img_target img = None"
    and "image_data_at s (Some i) = Some (idt, idata)"
  shows "\<exists>s'. swrender_FreeImage s (Some i) = Some s' \<and> images s' = (images s)(i := None)
           \<and> image_datas s' =
               (if idata_refcount idata \<le> 1 then (image_datas s)(idt := None)
                else (image_datas s)(idt \<mapsto> idata\<lparr>idata_refcount := idata_refcount idata - 1\<rparr>))"
proof -
  let ?img = "img\<lparr>img_refcount := img_refcount img - 1\<rparr>"
  let ?s1 = "s\<lparr>images := (images s)(i \<mapsto> ?img)\<rparr>"
  have t: "FreeImage_target ?s1 i ?img = Some ?s1"
    using assms by (simp add: FreeImage_target_def)
  have d: "image_data_at ?s1 (Some i) = Some (idt, idata)"
    using assms by (auto simp: image_data_at_def IMAGE_DATA_def bind_eq_Some_conv)
  show ?thesis
    using assms t d by (simp add: swrender_FreeImage_def FreeImage_data_def Let_def)
qed

lemma CreateAliasImage_effect:
  assumes img: "images s i = Some img" and ida: "image_data_at s (Some i) = Some (idt, idata)"
    and fresh: "r \<notin> dom (images s)"
  shows "\<exists>s1. swrender_CreateAliasImage s (Some i) (Some r) = Some (s1, Some r)
       \<and> images s1 = (images s)(r \<mapsto> img\<lparr>img_refcount := 1, img_is_alias := True\<rparr>)
       \<and> image_datas s1 = (image_datas s)(idt \<mapsto> idata\<lparr>idata_refcount := idata_refcount idata + 1\<rparr>)
       \<and> calls s1 = calls s"
proof -
  from fresh img have neq: "r \<noteq> i" by auto
  have "image_data_at (s\<lparr>images := (images s)(r \<mapsto> img)\<rparr>) (Some i) = Some (idt, idata)"
    using ida neq by (simp add: image_data_at_def IMAGE_DATA_def)
  then show ?thesis
    using img by (simp add: swrender_CreateAliasImage_def Let_def)
qed

lemma alias_free_sequence_run:
  assumes img: "images s i = Some img" "img_refcount img = 1"
    and ida: "image_data_at s (Some i) = Some (idt, idata)" "idata_refcount idata = 1"
    and fresh: "r \<notin> dom (images s)"
    and run: "swrender_CreateAliasImage s (Some i) (Some r) = Some (s1, a)"
      "swrender_FreeImage s1 a = Some s2" "swrender_FreeImage s2 (Some i) = Some s3"
  shows "a = Some r
       \<and> map_option idata_refcount (image_datas s1 idt) = Some 2
       \<and> map_option idata_refcount (image_datas s2 idt) = Some 1
       \<and> map_option tex (image_datas s2 idt) = Some (tex idata)
       \<and> filter is_SDL_DestroyTexture (drop (length (calls s)) (calls s2)) = []
       \<and> image_datas s3 idt = None
       \<and> filter is_SDL_DestroyTexture (drop (length (calls s)) (calls s3))
           = [SDL_DestroyTexture (tex idata)]
       \<and> images s3 i = None \<and> images s3 r = None
       \<and> swrender_FreeImage s3 (Some i) = None
       \<and> swrender_FreeImage s3 (Some r) = None
       \<and> swrender_FreeImage s3 None = Some s3"
proof -
  from fresh img have neq: "r \<noteq> i" by auto
  from ida img have dt: "img_data img = Some idt" "image_datas s idt = Some idata"
    by (auto simp: image_data_at_def IMAGE_DATA_def bind_eq_Some_conv)
  from CreateAliasImage_effect [OF img(1) ida(1) fresh] run(1)
  have a: "a = Some r"
    and i1: "images s1 = (images s)(r \<mapsto> img\<lparr>img_refcount := 1, img_is_alias := True\<rparr>)"
    and d1: "image_datas s1 = (image_datas s)(idt \<mapsto> idata\<lparr>idata_refcount := idata_refcount idata + 1\<rparr>)"
    and c1: "calls s1 = calls s"
    by auto
  let ?aimg = "img\<lparr>img_refcount := 1, img_is_alias := True\<rparr>"
  let ?idata1 = "idata\<lparr>idata_refcount := idata_refcount idata + 1\<rparr>"
  have f1: "swrender_FreeImage s1 (Some r) = Some s2" using run(2) a by simp
  from FreeImage_last_reference [OF _ _ _ _ f1, of ?aimg idt ?idata1] i1 d1 dt ida(2)
  have r2: "images s2 r = None"
    and o2: "\<And>j. j \<noteq> r \<Longrightarrow> map_option (\<lambda>im. im\<lparr>img_target := None\<rparr>) (images s2 j)
                         = map_option (\<lambda>im. im\<lparr>img_target := None\<rparr>) (images s1 j)"
    and t2: "take (length (calls s1)) (calls s2) = calls s1"
    and d2: "image_datas s2 = (image_datas s1)(idt \<mapsto> ?idata1\<lparr>idata_refcount := idata_refcount ?idata1 - 1\<rparr>)"
    and k2: "filter is_SDL_DestroyTexture (drop (length (calls s1)) (calls s2)) = []"
    by simp_all
  from up_to_target_fields [OF o2 [of i]] neq i1 img dt
  obtain im where im: "images s2 i = Some im" "img_data im = Some idt" "img_refcount im = 1"
    by (cases "images s2 i") auto
  have id2: "image_datas s2 idt = Some (?idata1\<lparr>idata_refcount := idata_refcount ?idata1 - 1\<rparr>)"
    using d2 by simp
  from FreeImage_last_reference [OF im(1) im(3) im(2) id2 run(3)] ida(2)
  have i3: "images s3 i = None"
    and o3: "\<And>j. j \<noteq> i \<Longrightarrow> map_option (\<lambda>im. im\<lparr>img_target := None\<rparr>) (images s3 j)
                         = map_option (\<lambda>im. im\<lparr>img_target := None\<rparr>) (images s2 j)"
    and t3: "take (length (calls s2)) (calls s3) = calls s2"
    and d3: "image_datas s3 = (image_datas s2)(idt := None)"
    and k3: "filter is_SDL_DestroyTexture (drop (length (calls s2)) (calls s3))
                 = [SDL_DestroyTexture (tex idata)]"
    by simp_all
  from o3 [of r] neq r2 have r3: "images s3 r = None" by simp
  obtain cs2 where cs2: "calls s2 = calls s @ cs2"
    using t2 c1 by (metis append_take_drop_id)
  obtain cs3 where cs3: "calls s3 = calls s2 @ cs3"
    using t3 by (metis append_take_drop_id)
  have k2': "filter is_SDL_DestroyTexture cs2 = []" using k2 cs2 c1 by simp
  have k3': "filter is_SDL_DestroyTexture cs3 = [SDL_DestroyTexture (tex idata)]"
    using k3 cs3 by simp
  show ?thesis
    using a d1 dt id2 ida(2) d3 i3 r3 cs2 cs3 k2' k3'
    by (simp add: swrender_FreeImage_def)
qed


lemma alias_free_sequence_defined:
  assumes img: "images s i = Some img" "img_refcount img = 1" "img_target img = None"
    and ida: "image_data_at s (Some i) = Some (idt, idata)" "idata_refcount idata = 1"
    and fresh: "r \<notin> dom (images s)"
  shows "\<exists>s1 s2 s3. swrender_CreateAliasImage s (Some i) (Some r) = Some (s1, Some r)
           \<and> swrender_FreeImage s1 (Some r) = Some s2
           \<and> swrender_FreeImage s2 (Some i) = Some s3"
proof -
  from fresh img have neq: "r \<noteq> i" by auto
  from ida img have dt: "img_data img = Some idt" "image_datas s idt = Some idata"
    by (auto simp: image_data_at_def IMAGE_DATA_def bind_eq_Some_conv)
  let ?aimg = "img\<lparr>img_refcount := 1, img_is_alias := True\<rparr>"
  let ?idata1 = "idata\<lparr>idata_refcount := idata_refcount idata + 1\<rparr>"
  from CreateAliasImage_effect [OF img(1) ida(1) fresh]
  obtain s1 where s1: "swrender_CreateAliasImage s (Some i) (Some r) = Some (s1, Some r)"
    and i1: "images s1 = (images s)(r \<mapsto> ?aimg)"
    and d1: "image_datas s1 = (image_datas s)(idt \<mapsto> ?idata1)"
    by blast
  have "image_data_at s1 (Some r) = Some (idt, ?idata1)"
    using i1 d1 dt by (simp add: image_data_at_def IMAGE_DATA_def)
  from FreeImage_without_target [OF _ _ _ this, of ?aimg] i1 img(3)
  obtain s2 where s2: "swrender_FreeImage s1 (Some r) = Some s2"
    and i2: "images s2 = (images s1)(r := None)"
    and d2: "image_datas s2 =
               (if idata_refcount ?idata1 \<le> 1 then (image_datas s1)(idt := None)
                else (image_datas s1)(idt \<mapsto> ?idata1\<lparr>idata_refcount := idata_refcount ?idata1 - 1\<rparr>))"
    by auto
  have "images s2 i = Some img"
    using i2 i1 neq img by simp
  moreover have "image_data_at s2 (Some i)
      = Some (idt, ?idata1\<lparr>idata_refcount := idata_refcount ?idata1 - 1\<rparr>)"
    using i2 i1 d2 d1 neq img dt ida(2) by (simp add: image_data_at_def IMAGE_DATA_def)
  ultimately obtain s3 where "swrender_FreeImage s2 (Some i) = Some s3"
    using FreeImage_without_target [of s2 i img] img by blast
  with s1 s2 show ?thesis by blast
qed

text \<open>
  C5, as amended. Let \<open>I\<close> be an allocated image whose own reference count is 1 and
  whose backing data has reference count 1, and let \<^verbatim>\<open>SDL_malloc\<close> give a fresh block
  to \<^verbatim>\<open>swrender_CreateAliasImage\<close>. When the alias and then \<open>I\<close> are released, the
  count of the backing data goes from 2 to 1 with the first release, which destroys no
  texture, and the second release destroys the texture, once, and releases the data and
  both image structs. After that, \<^verbatim>\<open>swrender_FreeImage\<close> on either handle dereferences a
  released struct: its behaviour is undefined, it is not a no-op; only the null handle
  is one. For an image without a derived target the three calls always complete.
\<close>

theorem alias_free_sequence:
  assumes img: "images s i = Some img" "img_refcount img = 1"
    and ida: "image_data_at s (Some i) = Some (idt, idata)" "idata_refcount idata = 1"
    and fresh: "r \<notin> dom (images s)"
  shows "(swrender_CreateAliasImage s (Some i) (Some r) = Some (s1, a)
          \<and> swrender_FreeImage s1 a = Some s2 \<and> swrender_FreeImage s2 (Some i) = Some s3
         \<longrightarrow> a = Some r
           \<and> map_option idata_refcount (image_datas s1 idt) = Some 2
           \<and> map_option idata_refcount (image_datas s2 idt) = Some 1
           \<and> map_option tex (image_datas s2 idt) = Some (tex idata)
           \<and> filter is_SDL_DestroyTexture (drop (length (calls s)) (calls s2)) = []
           \<and> image_datas s3 idt = None
           \<and> filter is_SDL_DestroyTexture (drop (length (calls s)) (calls s3))
               = [SDL_DestroyTexture (tex idata)]
           \<and> images s3 i = None \<and> images s3 r = None
           \<and> swrender_FreeImage s3 (Some i) = None
           \<and> swrender_FreeImage s3 (Some r) = None
           \<and> swrender_FreeImage s3 None = Some s3)
       \<and> (img_target img = None
         \<longrightarrow> (\<exists>s1 s2 s3. swrender_CreateAliasImage s (Some i) (Some r) = Some (s1, Some r)
                \<and> swrender_FreeImage s1 (Some r) = Some s2
                \<and> swrender_FreeImage s2 (Some i) = Some s3))"
  using alias_free_sequence_run [OF assms, of s1 a s2 s3]
    alias_free_sequence_defined [OF img(1,2) _ ida fresh]
  by blast

lemmas free_defs = swrender_FreeImage_def FreeImage_target_def FreeImage_data_def
  swrender_FreeTarget_def FreeTarget_detach_def FreeTarget_context_def

lemma alias_run:
  "swrender_CreateAliasImage st_image (Some 40) (Some 41) = Some (st_alias, Some 41)"
  "swrender_FreeImage st_alias (Some 41) = Some st_image"
  "swrender_FreeImage st_image (Some 40) = Some st_released"
  by (simp_all add: swrender_CreateAliasImage_def free_defs st_alias_def st_released_def
      call_def Let_def example_defs accessor_defs)


text \<open>
  C5, as stated, fails: after the alias and the image have been released, a third
  \<^verbatim>\<open>swrender_FreeImage\<close> on the same handle does not return the state unchanged. The
  function has no guard for a released handle and reads \<^verbatim>\<open>image->refcount\<close> from it.
\<close>

theorem third_FreeImage_not_a_noop:
  "swrender_CreateAliasImage st_image (Some 40) (Some 41) = Some (st_alias, Some 41)
   \<and> swrender_FreeImage st_alias (Some 41) = Some st_image
   \<and> swrender_FreeImage st_image (Some 40) = Some st_released
   \<and> swrender_FreeImage st_released (Some 40) = None
   \<and> swrender_FreeImage st_released (Some 41) = None"
  by (simp add: alias_run) (simp add: swrender_FreeImage_def st_released_def)


theorem alias_free_sequence_witness:
  "images st_image 40 = Some rgba_image \<and> img_refcount rgba_image = 1
   \<and> image_data_at st_image (Some 40) = Some (50, rgba_image_data)
   \<and> idata_refcount rgba_image_data = 1 \<and> 41 \<notin> dom (images st_image)
   \<and> swrender_CreateAliasImage st_image (Some 40) (Some 41) = Some (st_alias, Some 41)
   \<and> swrender_FreeImage st_alias (Some 41) = Some st_image
   \<and> swrender_FreeImage st_image (Some 40) = Some st_released
   \<and> map_option idata_refcount (image_datas st_alias 50) = Some 2
   \<and> map_option idata_refcount (image_datas st_image 50) = Some 1
   \<and> filter is_SDL_DestroyTexture (drop (length (calls st_image)) (calls st_image)) = []
   \<and> image_datas st_released 50 = None
   \<and> filter is_SDL_DestroyTexture (drop (length (calls st_image)) (calls st_released))
       = [SDL_DestroyTexture (tex rgba_image_data)]
   \<and> swrender_FreeImage st_released (Some 40) = None"
proof -
  have a: "images st_image 40 = Some rgba_image" "img_refcount rgba_image = 1"
    "image_data_at st_image (Some 40) = Some (50, rgba_image_data)"
    "idata_refcount rgba_image_data = 1" "41 \<notin> dom (images st_image)"
    by (simp_all add: example_defs accessor_defs)
  from alias_free_sequence [OF a, of st_alias "Some 41" st_image st_released] alias_run a
  show ?thesis by simp
qed


end
